theory Spec2Isabelle
  imports Main "HOL-Library.Word" "HOL-Library.Signed_Division"
begin

unbundle bit_operations_syntax

section \<open>Data model (DisplayDefs.h and the private members of class RA8875)\<close>

datatype RetCode_t =
    noerror | bad_parameter | file_not_found | not_bmp_format | not_ico_format
  | not_supported_format | image_too_big | not_enough_ram | touch_cal_timeout
  | external_abort | LastErrCode

datatype TouchCode_t = no_touch | touch | held | release | no_cal

datatype WhichTP_T = TP_NONE | TP_RES | TP_CAP

text \<open>\<open>loc_t\<close> is \<open>int16_t\<close>; the fields \<open>x\<close> and \<open>y\<close> of \<open>point_t\<close> are written
  \<open>p_x\<close> and \<open>p_y\<close> so that \<open>x\<close> and \<open>y\<close> stay free for variables.\<close>

type_synonym loc_t = "16 word"

record point_t =
  p_x :: loc_t
  p_y :: loc_t

text \<open>Seven \<open>int32_t\<close> fields.\<close>

record tpMatrix_t =
  An :: "32 word"
  Bn :: "32 word"
  Cn :: "32 word"
  Dn :: "32 word"
  En :: "32 word"
  Fn :: "32 word"
  Divider :: "32 word"

record touchInfo_T =
  touchID :: "8 word"
  touchCode :: TouchCode_t
  coordinates :: point_t

text \<open>The members of the driver object that the touch code reads or writes.
  \<open>touchInfo\<close> is the array \<open>touchInfo_T touchInfo[5]\<close>, indexed by constants only.
  \<open>touchTimer\<close> holds what \<open>touchTimer.read_us()\<close> returns: the microseconds since the
  last \<open>touchTimer.reset()\<close>. \<open>xbuf\<close>, \<open>ybuf\<close>, \<open>lastX\<close> and \<open>lastY\<close> are the
  function-static variables of \<open>TouchPanelA2DFiltered\<close>. \<open>touchSample\<close> is a C \<open>int\<close>
  that only ever counts from 0 to \<open>TPBUFSIZE\<close>.\<close>

record RA8875 =
  useTouchPanel :: WhichTP_T
  touchState :: TouchCode_t
  numberOfTouchPoints :: "16 word"
  touchInfo :: "nat \<Rightarrow> touchInfo_T"
  panelTouched :: bool
  touchSample :: nat
  touchTimer :: int
  tpMatrix :: tpMatrix_t
  xbuf :: "int list"
  ybuf :: "int list"
  lastX :: int
  lastY :: int

definition NOTOUCH_TIMEOUT_uS :: int where
  "NOTOUCH_TIMEOUT_uS = 100000"

definition TOUCH_TICKER_uS :: int where
  "TOUCH_TICKER_uS = 1000"

definition TPBUFSIZE :: nat where
  "TPBUFSIZE = 16"

definition RA8875_INT_TP :: "8 word" where
  "RA8875_INT_TP = push_bit 2 1"

section \<open>TouchPanelSetMatrix\<close>

text \<open>The argument is a pointer that may be \<open>NULL\<close>: \<open>None\<close>.\<close>

definition TouchPanelSetMatrix :: "tpMatrix_t option \<Rightarrow> RA8875 \<Rightarrow> RetCode_t \<times> RA8875" where
  "TouchPanelSetMatrix matrixPtr s =
     (case matrixPtr of
        None \<Rightarrow> (bad_parameter, s)
      | Some m \<Rightarrow>
          if Divider m = 0 then (bad_parameter, s)
          else (noerror, s\<lparr>tpMatrix := m, touchState := no_touch\<rparr>))"

section \<open>The watchdog ticker\<close>

text \<open>\<open>_TouchTicker\<close>, attached to a ticker of period \<open>TOUCH_TICKER_uS\<close>.\<close>

definition TouchTicker :: "RA8875 \<Rightarrow> RA8875" where
  "TouchTicker s =
     (if touchTimer s > NOTOUCH_TIMEOUT_uS then
        s\<lparr>touchSample := 0,
          touchState := (if touchState s = held then release else no_touch),
          touchTimer := 0\<rparr>
      else s)"

text \<open>Time passing without any sample: the free-running timer advances.\<close>

definition elapse_us :: "int \<Rightarrow> RA8875 \<Rightarrow> RA8875" where
  "elapse_us d s = s\<lparr>touchTimer := touchTimer s + d\<rparr>"

text \<open>One ticker period with no other activity, and \<open>n\<close> of them in a row.\<close>

definition ticker_period :: "RA8875 \<Rightarrow> RA8875" where
  "ticker_period s = TouchTicker (elapse_us TOUCH_TICKER_uS s)"

primrec run_ticker :: "nat \<Rightarrow> RA8875 \<Rightarrow> RA8875" where
  "run_ticker 0 s = s"
| "run_ticker (Suc n) s = ticker_period (run_ticker n s)"

text \<open>The number of ticker periods after which a timer that reads \<open>t\<close> is first seen
  above the threshold.\<close>

definition ticks_to_timeout :: "int \<Rightarrow> nat" where
  "ticks_to_timeout t = nat ((NOTOUCH_TIMEOUT_uS - t) div TOUCH_TICKER_uS) + 1"

section \<open>The calibration solver\<close>

text \<open>The operands are \<open>int16_t\<close> fields; C promotes them to \<open>int\<close> (32 bits on the
  target) before subtracting and multiplying, and the results are stored in \<open>int32_t\<close>
  fields. The arithmetic is that of 32-bit words: it wraps around.\<close>

definition promote :: "loc_t \<Rightarrow> 32 word" where
  "promote v = scast v"

text \<open>The two arguments \<open>point_t display[3]\<close> and \<open>point_t screen[3]\<close> are triples.
  \<open>matrixPtr\<close> is an optional output: \<open>None\<close> for a null pointer, otherwise the caller's
  matrix before the call; the second component of the result is the caller's matrix
  after the call. The function writes \<open>tpMatrix.Divider\<close> first, tests it, and only then
  computes the six other fields, all in the member \<open>tpMatrix\<close>.\<close>

definition TouchPanelComputeCalibration ::
  "point_t \<times> point_t \<times> point_t \<Rightarrow> point_t \<times> point_t \<times> point_t \<Rightarrow> tpMatrix_t option \<Rightarrow> RA8875
     \<Rightarrow> RetCode_t \<times> tpMatrix_t option \<times> RA8875" where
  "TouchPanelComputeCalibration displayPtr screenPtr matrixPtr s =
     (case displayPtr of (d0, d1, d2) \<Rightarrow>
      case screenPtr of (s0, s1, s2) \<Rightarrow>
        let xs0 = promote (p_x s0); ys0 = promote (p_y s0);
            xs1 = promote (p_x s1); ys1 = promote (p_y s1);
            xs2 = promote (p_x s2); ys2 = promote (p_y s2);
            xd0 = promote (p_x d0); yd0 = promote (p_y d0);
            xd1 = promote (p_x d1); yd1 = promote (p_y d1);
            xd2 = promote (p_x d2); yd2 = promote (p_y d2);
            sa = s\<lparr>tpMatrix := (tpMatrix s)\<lparr>Divider :=
                   ((xs0 - xs2) * (ys1 - ys2)) - ((xs1 - xs2) * (ys0 - ys2))\<rparr>\<rparr>
        in if Divider (tpMatrix sa) = 0 then (bad_parameter, matrixPtr, sa)
           else
             let m = (tpMatrix sa)\<lparr>
                   An := ((xd0 - xd2) * (ys1 - ys2)) - ((xd1 - xd2) * (ys0 - ys2)),
                   Bn := ((xs0 - xs2) * (xd1 - xd2)) - ((xd0 - xd2) * (xs1 - xs2)),
                   Cn := (xs2 * xd1 - xs1 * xd2) * ys0 +
                         (xs0 * xd2 - xs2 * xd0) * ys1 +
                         (xs1 * xd0 - xs0 * xd1) * ys2,
                   Dn := ((yd0 - yd2) * (ys1 - ys2)) - ((yd1 - yd2) * (ys0 - ys2)),
                   En := ((xs0 - xs2) * (yd1 - yd2)) - ((yd0 - yd2) * (xs1 - xs2)),
                   Fn := (xs2 * yd1 - xs1 * yd2) * ys0 +
                         (xs0 * yd2 - xs2 * yd0) * ys1 +
                         (xs1 * yd0 - xs0 * yd1) * ys2\<rparr>;
                 sb = sa\<lparr>tpMatrix := m, touchState := no_touch\<rparr>
             in (noerror, (case matrixPtr of None \<Rightarrow> None | Some old \<Rightarrow> Some m), sb))"

text \<open>The value the solver computes for \<open>Divider\<close>: zero exactly when the computation,
  in 32-bit arithmetic, finds the three raw points collinear.\<close>

definition raw_Divider :: "point_t \<times> point_t \<times> point_t \<Rightarrow> 32 word" where
  "raw_Divider screenPtr =
     (case screenPtr of (s0, s1, s2) \<Rightarrow>
        ((promote (p_x s0) - promote (p_x s2)) * (promote (p_y s1) - promote (p_y s2))) -
        ((promote (p_x s1) - promote (p_x s2)) * (promote (p_y s0) - promote (p_y s2))))"

text \<open>A point whose coordinates both lie in the ten-bit range 0..1023.\<close>

definition ten_bit :: "point_t \<Rightarrow> bool" where
  "ten_bit p = (0 \<le> sint (p_x p) \<and> sint (p_x p) \<le> 1023 \<and> 0 \<le> sint (p_y p) \<and> sint (p_y p) \<le> 1023)"

section \<open>Applying the matrix\<close>

text \<open>C's \<open>/\<close> on \<open>int\<close>: the quotient is truncated towards zero. The caller tests the
  divisor against zero first.\<close>

definition c_div :: "32 word \<Rightarrow> 32 word \<Rightarrow> 32 word" where
  "c_div a b = word_of_int (sint a sdiv sint b)"

text \<open>The two assignments to \<open>touchInfo[0].coordinates\<close> in \<open>TouchPanelReadable\<close>: the
  sums are formed in 32 bits, divided, and the quotient is stored in an \<open>int16_t\<close>.\<close>

definition calibrated_point :: "tpMatrix_t \<Rightarrow> 32 word \<Rightarrow> 32 word \<Rightarrow> point_t" where
  "calibrated_point m a2dX a2dY =
     \<lparr>p_x = ucast (c_div ((An m * a2dX) + (Bn m * a2dY) + Cn m) (Divider m)),
      p_y = ucast (c_div ((Dn m * a2dX) + (En m * a2dY) + Fn m) (Divider m))\<rparr>"

section \<open>The noise filter\<close>

text \<open>The inner \<open>while\<close> loop of \<open>InsertionSort\<close>, entered with \<open>j\<close> and \<open>temp\<close>, up to
  and including the store \<open>buf[j] = temp\<close> that follows it.\<close>

fun InsertionSort_inner :: "int list \<Rightarrow> nat \<Rightarrow> int \<Rightarrow> int list" where
  "InsertionSort_inner buf 0 temp = buf[0 := temp]"
| "InsertionSort_inner buf (Suc j) temp =
     (if buf ! j > temp then InsertionSort_inner (buf[Suc j := buf ! j]) j temp
      else buf[Suc j := temp])"

function InsertionSort_outer :: "int list \<Rightarrow> nat \<Rightarrow> nat \<Rightarrow> int list" where
  "InsertionSort_outer buf i bufsize =
     (if i < bufsize then InsertionSort_outer (InsertionSort_inner buf i (buf ! i)) (Suc i) bufsize
      else buf)"
  by pat_completeness auto
termination
  by (relation "measure (\<lambda>(buf, i, bufsize). bufsize - i)") auto

declare InsertionSort_outer.simps [simp del]

definition InsertionSort :: "int list \<Rightarrow> nat \<Rightarrow> int list" where
  "InsertionSort buf bufsize = InsertionSort_outer buf 1 bufsize"

text \<open>The summing loop \<open>for (i = lo; i < hi; i++) j += buf[i]\<close>.\<close>

function sum_loop :: "int list \<Rightarrow> nat \<Rightarrow> nat \<Rightarrow> int \<Rightarrow> int" where
  "sum_loop buf i hi j = (if i < hi then sum_loop buf (Suc i) hi (j + buf ! i) else j)"
  by pat_completeness auto
termination
  by (relation "measure (\<lambda>(buf, i, hi, j). hi - i)") auto

declare sum_loop.simps [simp del]

text \<open>\<open>j * (float)2/TPBUFSIZE\<close> converted back to \<open>int\<close>. The sum \<open>j\<close> of at most
  \<open>TPBUFSIZE\<close> ten-bit samples is far below \<open>2^23\<close>, so the conversion to \<open>float\<close>, the
  product with 2 and the quotient by the power of two 16 are all exact, and the
  conversion to \<open>int\<close> truncates towards zero.\<close>

definition scale_average :: "int \<Rightarrow> int" where
  "scale_average j = (j * 2) sdiv int TPBUFSIZE"

text \<open>The values that the \<open>ReadCommand\<close> calls of one poll return, in the order of the
  calls: \<open>INTC2\<close>, then \<open>TPYH\<close> and \<open>TPXYL\<close> for the y sample, then \<open>TPXH\<close> and \<open>TPXYL\<close>
  for the x sample. The last four are read only when the touch flag of \<open>INTC2\<close> is set.\<close>

record tp_regs =
  rd_INTC2 :: "8 word"
  rd_TPYH :: "8 word"
  rd_TPXYL_y :: "8 word"
  rd_TPXH :: "8 word"
  rd_TPXYL_x :: "8 word"

definition a2d_y :: "tp_regs \<Rightarrow> int" where
  "a2d_y r = push_bit 2 (uint (rd_TPYH r)) OR drop_bit 2 (uint (rd_TPXYL_y r) AND 0xC)"

definition a2d_x :: "tp_regs \<Rightarrow> int" where
  "a2d_x r = push_bit 2 (uint (rd_TPXH r)) OR (uint (rd_TPXYL_x r) AND 0x3)"

text \<open>The bounds of the middle-half loops.\<close>

definition avg_lo :: nat where
  "avg_lo = (TPBUFSIZE div 4) - 1"

definition avg_hi :: nat where
  "avg_hi = TPBUFSIZE - TPBUFSIZE div 4"

text \<open>The test \<open>ReadCommand(INTC2) & RA8875_INT_TP\<close>: a new sample is waiting.\<close>

definition touch_flag :: "tp_regs \<Rightarrow> bool" where
  "touch_flag r = (rd_INTC2 r AND RA8875_INT_TP \<noteq> 0)"

text \<open>The sample index lies inside the two static arrays of \<open>TPBUFSIZE\<close> entries.\<close>

definition buffers_ok :: "RA8875 \<Rightarrow> bool" where
  "buffers_ok s = (touchSample s < TPBUFSIZE \<and> length (xbuf s) = TPBUFSIZE
                   \<and> length (ybuf s) = TPBUFSIZE)"

text \<open>\<open>TouchPanelA2DFiltered(int *x, int *y)\<close>. The pair \<open>xy\<close> holds the caller's
  variables before the call; the result holds the return code, the caller's variables
  after the call and the new state. Writing \<open>xbuf[touchSample]\<close> outside the arrays of
  \<open>TPBUFSIZE\<close> entries is undefined in C: the model returns \<open>None\<close> there. Clearing the
  interrupt flag with \<open>WriteCommand\<close> acts on the chip only; what the next poll reads is
  that poll's \<open>tp_regs\<close>.\<close>

definition TouchPanelA2DFiltered ::
  "tp_regs \<Rightarrow> int \<times> int \<Rightarrow> RA8875 \<Rightarrow> (TouchCode_t \<times> (int \<times> int) \<times> RA8875) option" where
  "TouchPanelA2DFiltered r xy s =
     (if touch_flag r then
        if \<not> buffers_ok s then None
        else
          let s1 = s\<lparr>touchTimer := 0,
                     ybuf := (ybuf s)[touchSample s := a2d_y r],
                     xbuf := (xbuf s)[touchSample s := a2d_x r],
                     touchSample := touchSample s + 1\<rparr>
          in if touchSample s1 = TPBUFSIZE then
               let yb = InsertionSort (ybuf s1) TPBUFSIZE;
                   xb = InsertionSort (xbuf s1) TPBUFSIZE;
                   ny = scale_average (sum_loop yb avg_lo avg_hi 0);
                   nx = scale_average (sum_loop xb avg_lo avg_hi 0);
                   ts = (if touchState s1 = touch \<or> touchState s1 = held then held else touch)
               in Some (ts, (nx, ny),
                        s1\<lparr>ybuf := yb, xbuf := xb, lastY := ny, lastX := nx,
                           touchState := ts, touchSample := 0\<rparr>)
             else if touchState s1 = touch \<or> touchState s1 = held then
               Some (held, (lastX s1, lastY s1), s1\<lparr>touchState := held\<rparr>)
             else Some (touchState s, xy, s1)
      else if touchState s = touch \<or> touchState s = held then
        Some (held, (lastX s, lastY s), s\<lparr>touchState := held\<rparr>)
      else if touchState s = release then
        Some (release, (lastX s, lastY s), s\<lparr>touchState := no_touch\<rparr>)
      else Some (touchState s, xy, s))"

text \<open>Successive polls, each handing the caller's variables on to the next.\<close>

fun poll_all ::
  "tp_regs list \<Rightarrow> TouchCode_t \<times> (int \<times> int) \<times> RA8875 \<Rightarrow> (TouchCode_t \<times> (int \<times> int) \<times> RA8875) option" where
  "poll_all [] res = Some res"
| "poll_all (r # rs) (ts, xy, s) =
     (case TouchPanelA2DFiltered r xy s of None \<Rightarrow> None | Some res \<Rightarrow> poll_all rs res)"

text \<open>The value the filter reports for one axis from a full buffer: the buffer is sorted,
  the entries from \<open>avg_lo\<close> up to \<open>avg_hi\<close> are summed and the sum is scaled.\<close>

definition filtered_value :: "int list \<Rightarrow> int" where
  "filtered_value buf = scale_average (sum_loop (InsertionSort buf TPBUFSIZE) avg_lo avg_hi 0)"

section \<open>TouchPanelReadable\<close>

text \<open>The resistive branch of \<open>TouchPanelReadable\<close>, up to the assignment
  \<open>touchInfo[0].touchCode = ts\<close>. The filtered values are C \<open>int\<close>s.\<close>

definition set_touchInfo0 :: "(touchInfo_T \<Rightarrow> touchInfo_T) \<Rightarrow> RA8875 \<Rightarrow> RA8875" where
  "set_touchInfo0 f s = s\<lparr>touchInfo := (touchInfo s)(0 := f (touchInfo s 0))\<rparr>"

definition Readable_resistive :: "tp_regs \<Rightarrow> RA8875 \<Rightarrow> (TouchCode_t \<times> RA8875) option" where
  "Readable_resistive r s =
     (case TouchPanelA2DFiltered r (0, 0) (set_touchInfo0 (touchID_update (\<lambda>_. 0)) s) of
        None \<Rightarrow> None
      | Some (ts, (a2dX, a2dY), s1) \<Rightarrow>
          if ts \<noteq> no_touch then
            let s2 = s1\<lparr>panelTouched := True, numberOfTouchPoints := 1\<rparr>
            in if Divider (tpMatrix s2) \<noteq> 0 then
                 Some (ts, set_touchInfo0 (touchCode_update (\<lambda>_. ts))
                         (set_touchInfo0 (coordinates_update (\<lambda>_.
                            calibrated_point (tpMatrix s2) (word_of_int a2dX) (word_of_int a2dY))) s2))
               else Some (no_cal, set_touchInfo0 (touchCode_update (\<lambda>_. no_cal)) s2)
          else Some (ts, set_touchInfo0 (touchCode_update (\<lambda>_. ts))
                       (s1\<lparr>numberOfTouchPoints := 0\<rparr>)))"

text \<open>\<open>TouchPoint\<close> is the optional output pointer: \<open>None\<close> for a null pointer, otherwise
  the caller's point before the call; the second component of the result is the caller's
  point after the call.\<close>

definition TouchPanelReadable ::
  "tp_regs \<Rightarrow> point_t option \<Rightarrow> RA8875 \<Rightarrow> (TouchCode_t \<times> point_t option \<times> RA8875) option" where
  "TouchPanelReadable r TouchPoint s =
     (case (if useTouchPanel s = TP_RES then Readable_resistive r s else Some (no_touch, s)) of
        None \<Rightarrow> None
      | Some (ts, s3) \<Rightarrow>
          if panelTouched s3 then
            let s4 = s3\<lparr>panelTouched := False\<rparr>
            in (case TouchPoint of
                  Some old \<Rightarrow> Some (touchCode (touchInfo s4 0), Some (coordinates (touchInfo s4 0)), s4)
                | None \<Rightarrow> Some (touch, None, s4))
          else Some (ts, TouchPoint, s3))"

text \<open>Whether the resistive poll made by \<open>TouchPanelReadable\<close> reports a touch code
  other than \<open>no_touch\<close>, which is when that call sets \<open>panelTouched\<close> itself.\<close>

definition new_event :: "tp_regs \<Rightarrow> RA8875 \<Rightarrow> bool" where
  "new_event r s =
     (useTouchPanel s = TP_RES \<and>
      (case TouchPanelA2DFiltered r (0, 0) (set_touchInfo0 (touchID_update (\<lambda>_. 0)) s) of
         None \<Rightarrow> False
       | Some (ts, xy, s1) \<Rightarrow> ts \<noteq> no_touch))"

section \<open>TouchPanelCalibrate\<close>

text \<open>\<open>TouchPanelCalibrate\<close> is a blocking routine that depends on time, on what the
  chip reports and on the optional idle callback. The callback is invoked with a reason,
  by the routine's own loops with \<open>touchcal_wait\<close>, by the busy-waits of the drawing calls
  with \<open>status_wait\<close> or \<open>command_wait\<close>.\<close>

datatype IdleReason_T = unknown | status_wait | command_wait | getc_wait | touch_wait | touchcal_wait

text \<open>The callback is a function pointer and may answer differently each time: it is given
  by the value its n-th invocation of the session returns for the reason it is passed.\<close>

type_synonym IdleCallback_T = "nat \<Rightarrow> IdleReason_T \<Rightarrow> RetCode_t"

definition POLLWAITuSec :: nat where
  "POLLWAITuSec = 10"

text \<open>A session carries the driver state, the local timer \<open>timeout\<close> in microseconds since
  \<open>timeout.start()\<close>, the microseconds since the ticker last fired, the number of polls
  of the touch panel, of busy-waits and of text outputs made so far, the invocations of the
  idle callback so far (the newest first, each with its reason and its answer), and the
  locals \<open>x\<close> and \<open>y\<close>.
  The environment is given by \<open>hw\<close>, the registers seen by the n-th poll of the touch
  panel; \<open>busy\<close>, the number of successive reads that find the chip busy in the n-th
  busy-wait; \<open>glyphs\<close>, the number of characters that the n-th text output hands to the
  chip's internal font (none when \<open>msg\<close> is null, for \<open>\r\<close> and \<open>\n\<close>, and when an external
  font is selected); and \<open>cb\<close>, the optional callback.
  Time passes in \<open>wait_ms\<close> and \<open>wait_us\<close> only, one microsecond at a time: the touch timer
  and the session timer advance, and the ticker runs \<open>_TouchTicker\<close> once its period has
  passed. The comparison \<open>timeout.read() < maxwait_s\<close> of seconds is made in
  microseconds.\<close>

record session =
  dev :: RA8875
  timeout :: int
  tick_phase :: int
  polls :: nat
  waits :: nat
  texts :: nat
  calls :: "(IdleReason_T \<times> RetCode_t) list"
  loc_x :: int
  loc_y :: int

text \<open>What a step of the session yields: \<open>Fault\<close> for undefined behaviour in a poll,
  \<open>Aborted\<close> when \<open>TouchPanelCalibrate\<close> returns \<open>external_abort\<close> there, \<open>Continue\<close>
  otherwise.\<close>

datatype 'a outcome = Fault | Aborted session | Continue 'a session


definition tick_us :: "session \<Rightarrow> session" where
  "tick_us w =
     (if tick_phase w + 1 \<ge> TOUCH_TICKER_uS then
        w\<lparr>dev := TouchTicker (elapse_us 1 (dev w)), timeout := timeout w + 1, tick_phase := 0\<rparr>
      else
        w\<lparr>dev := elapse_us 1 (dev w), timeout := timeout w + 1, tick_phase := tick_phase w + 1\<rparr>)"

primrec wait_us :: "nat \<Rightarrow> session \<Rightarrow> session" where
  "wait_us 0 w = w"
| "wait_us (Suc n) w = tick_us (wait_us n w)"


text \<open>\<open>if (idle_callback) { if (external_abort == (*idle_callback)(reason)) \<dots> }\<close>: the
  invocation is recorded, and the flag says whether the answer was \<open>external_abort\<close>.\<close>

definition idle_call :: "IdleCallback_T option \<Rightarrow> IdleReason_T \<Rightarrow> session \<Rightarrow> bool \<times> session" where
  "idle_call cb reason w =
     (case cb of
        None \<Rightarrow> (False, w)
      | Some f \<Rightarrow> (f (length (calls w)) reason = external_abort,
                   w\<lparr>calls := (reason, f (length (calls w)) reason) # calls w\<rparr>))"

text \<open>The loop of \<open>_WaitWhileBusy\<close> and \<open>_WaitWhileReg\<close> of \<open>RA8875.cpp\<close>, \<open>while (i-- &&
  Read\<dots>() & mask) { wait_us(POLLWAITuSec); \<dots> }\<close>, for \<open>n\<close> reads that find the chip busy:
  an answer \<open>external_abort\<close> of the callback ends the busy-wait, which then returns
  \<open>false\<close>. The counter \<open>i\<close> starts at \<open>20000/POLLWAITuSec\<close>. The drawing calls turn
  \<open>false\<close> into their own return code, which \<open>TouchPanelCalibrate\<close> does not read, so the
  busy-waits yield the session only.\<close>

primrec busy_loop :: "nat \<Rightarrow> IdleReason_T \<Rightarrow> IdleCallback_T option \<Rightarrow> session \<Rightarrow> session" where
  "busy_loop 0 reason cb w = w"
| "busy_loop (Suc n) reason cb w =
     (let (ab, w1) = idle_call cb reason (wait_us POLLWAITuSec w)
      in if ab then w1 else busy_loop n reason cb w1)"

definition WaitWhileBusy :: "(nat \<Rightarrow> nat) \<Rightarrow> IdleCallback_T option \<Rightarrow> session \<Rightarrow> session" where
  "WaitWhileBusy busy cb w =
     busy_loop (min (busy (waits w)) (20000 div POLLWAITuSec)) status_wait cb
       (w\<lparr>waits := waits w + 1\<rparr>)"

definition WaitWhileReg :: "(nat \<Rightarrow> nat) \<Rightarrow> IdleCallback_T option \<Rightarrow> session \<Rightarrow> session" where
  "WaitWhileReg busy cb w =
     busy_loop (min (busy (waits w)) (20000 div POLLWAITuSec)) command_wait cb
       (w\<lparr>waits := waits w + 1\<rparr>)"

text \<open>The drawing calls of \<open>TouchPanelCalibrate\<close>, as far as time and the callback go.
  \<open>cls()\<close> clears the full window in \<open>clsw\<close>, with one \<open>_WaitWhileReg\<close>. \<open>line\<close> is
  called with two different end points and has one \<open>_WaitWhileReg\<close>. \<open>puts\<close> and
  \<open>printf\<close> write character by character, with one \<open>_WaitWhileBusy\<close> for every character
  drawn by the internal font. \<open>foreground\<close> and \<open>SetTextCursor\<close> do not wait.\<close>

definition cls :: "(nat \<Rightarrow> nat) \<Rightarrow> IdleCallback_T option \<Rightarrow> session \<Rightarrow> session" where
  "cls busy cb w = WaitWhileReg busy cb w"

definition line :: "(nat \<Rightarrow> nat) \<Rightarrow> IdleCallback_T option \<Rightarrow> session \<Rightarrow> session" where
  "line busy cb w = WaitWhileReg busy cb w"













text \<open>The record of invocations agrees with the callback: the k-th invocation of the
  session is recorded with the answer that the callback gives to it. Without a callback
  nothing is recorded.\<close>

definition log_ok :: "IdleCallback_T option \<Rightarrow> session \<Rightarrow> bool" where
  "log_ok cb w =
     (case cb of
        None \<Rightarrow> calls w = []
      | Some f \<Rightarrow> (\<forall>k<length (calls w). snd (rev (calls w) ! k) = f k (fst (rev (calls w) ! k))))"

text \<open>An invocation made by the routine's own loops was answered with \<open>external_abort\<close>.\<close>

definition own_abort :: "session \<Rightarrow> bool" where
  "own_abort w = ((touchcal_wait, external_abort) \<in> set (calls w))"

text \<open>What every step of a session preserves: the active matrix, the order of time, the
  sample index staying inside the buffers, and the record of invocations. A step that
  only draws or lets time pass also makes no poll, leaves the locals alone, adds no
  answer to the routine's own invocations, and leaves the touch state \<open>no_touch\<close> as it
  is. An outcome is in order when it is not a fault, keeps these, aborts only on the
  answer \<open>external_abort\<close> to the routine's own latest invocation, and continues only if
  no such answer was added.\<close>

definition sess_ok :: "IdleCallback_T option \<Rightarrow> session \<Rightarrow> bool" where
  "sess_ok cb w = (buffers_ok (dev w) \<and> log_ok cb w)"

definition keeps :: "IdleCallback_T option \<Rightarrow> session \<Rightarrow> session \<Rightarrow> bool" where
  "keeps cb w w' = (tpMatrix (dev w') = tpMatrix (dev w) \<and> timeout w \<le> timeout w'
                    \<and> sess_ok cb w')"


definition ok_outcome :: "IdleCallback_T option \<Rightarrow> session \<Rightarrow> 'a outcome \<Rightarrow> bool" where
  "ok_outcome cb w r =
     (case r of
        Fault \<Rightarrow> False
      | Aborted w' \<Rightarrow> keeps cb w w'
          \<and> (\<exists>rest. calls w' = (touchcal_wait, external_abort) # rest
                \<and> ((touchcal_wait, external_abort) \<in> set rest \<longrightarrow> own_abort w))
      | Continue a w' \<Rightarrow> keeps cb w w' \<and> (own_abort w' \<longrightarrow> own_abort w))"


section \<open>Concrete states and inputs\<close>

text \<open>A resistive panel right after \<open>TouchPanelInit\<close>, with no calibration yet.\<close>

definition example_state :: RA8875 where
  "example_state =
     \<lparr>useTouchPanel = TP_RES, touchState = no_cal, numberOfTouchPoints = 0,
      touchInfo = (\<lambda>_. \<lparr>touchID = 0, touchCode = no_touch, coordinates = \<lparr>p_x = 0, p_y = 0\<rparr>\<rparr>),
      panelTouched = False, touchSample = 0, touchTimer = 0,
      tpMatrix = \<lparr>An = 0, Bn = 0, Cn = 0, Dn = 0, En = 0, Fn = 0, Divider = 0\<rparr>,
      xbuf = replicate 16 0, ybuf = replicate 16 0, lastX = 0, lastY = 0\<rparr>"

definition example_matrix :: tpMatrix_t where
  "example_matrix = \<lparr>An = 1, Bn = 2, Cn = 3, Dn = 4, En = 5, Fn = 6, Divider = 7\<rparr>"

definition test_targets :: "point_t \<times> point_t \<times> point_t" where
  "test_targets = (\<lparr>p_x = 50, p_y = 50\<rparr>, \<lparr>p_x = 430, p_y = 150\<rparr>, \<lparr>p_x = 225, p_y = 250\<rparr>)"

definition test_samples :: "point_t \<times> point_t \<times> point_t" where
  "test_samples = (\<lparr>p_x = 100, p_y = 100\<rparr>, \<lparr>p_x = 900, p_y = 300\<rparr>, \<lparr>p_x = 500, p_y = 600\<rparr>)"

definition samples_12bit :: "point_t \<times> point_t \<times> point_t" where
  "samples_12bit = (\<lparr>p_x = 0, p_y = 0\<rparr>, \<lparr>p_x = 4000, p_y = 0\<rparr>, \<lparr>p_x = 0, p_y = 4000\<rparr>)"

definition collinear_samples :: "point_t \<times> point_t \<times> point_t" where
  "collinear_samples = (\<lparr>p_x = 100, p_y = 100\<rparr>, \<lparr>p_x = 200, p_y = 200\<rparr>, \<lparr>p_x = 300, p_y = 300\<rparr>)"

definition calibrated_state :: RA8875 where
  "calibrated_state = example_state\<lparr>touchState := no_touch, tpMatrix := example_matrix\<rparr>"

definition no_new_sample :: tp_regs where
  "no_new_sample = \<lparr>rd_INTC2 = 0, rd_TPYH = 0, rd_TPXYL_y = 0, rd_TPXH = 0, rd_TPXYL_x = 0\<rparr>"

definition sample_1000 :: tp_regs where
  "sample_1000 = \<lparr>rd_INTC2 = 4, rd_TPYH = 250, rd_TPXYL_y = 0, rd_TPXH = 250, rd_TPXYL_x = 0\<rparr>"

definition touching_state :: RA8875 where
  "touching_state = example_state\<lparr>touchState := touch, touchSample := 3, lastX := 512, lastY := 300\<rparr>"

text \<open>A state one sample short of a full batch, every buffer entry being 1000.\<close>

definition last_of_batch :: RA8875 where
  "last_of_batch = example_state\<lparr>touchSample := 15, xbuf := replicate 16 1000, ybuf := replicate 16 1000\<rparr>"




definition chip_slow :: "nat \<Rightarrow> nat" where
  "chip_slow n = 3"


definition abort_while_drawing :: IdleCallback_T where
  "abort_while_drawing n reason = (if reason = touchcal_wait then noerror else external_abort)"


section \<open>Properties\<close>

subsection \<open>TouchPanelSetMatrix\<close>

text \<open>C10: \<open>TouchPanelSetMatrix\<close> returns \<open>bad_parameter\<close> and changes nothing when its
  argument is a null pointer or a matrix whose \<open>Divider\<close> is 0; otherwise it installs the
  whole matrix, sets the touch state to \<open>no_touch\<close> and returns \<open>noerror\<close>. A matrix
  installed by it therefore has a non-zero \<open>Divider\<close>.\<close>

theorem SetMatrix_contract:
  "(matrixPtr = None \<or> (\<exists>m. matrixPtr = Some m \<and> Divider m = 0)
       \<longrightarrow> TouchPanelSetMatrix matrixPtr s = (bad_parameter, s))
   \<and> (\<forall>m. matrixPtr = Some m \<and> Divider m \<noteq> 0
       \<longrightarrow> TouchPanelSetMatrix matrixPtr s = (noerror, s\<lparr>tpMatrix := m, touchState := no_touch\<rparr>)
           \<and> tpMatrix (snd (TouchPanelSetMatrix matrixPtr s)) = m
           \<and> touchState (snd (TouchPanelSetMatrix matrixPtr s)) = no_touch)
   \<and> (fst (TouchPanelSetMatrix matrixPtr s) = noerror
       \<longrightarrow> Divider (tpMatrix (snd (TouchPanelSetMatrix matrixPtr s))) \<noteq> 0)"
  by (auto simp: TouchPanelSetMatrix_def split: option.splits)

theorem SetMatrix_contract_witness:
  "TouchPanelSetMatrix None example_state = (bad_parameter, example_state)
   \<and> Divider (example_matrix\<lparr>Divider := 0\<rparr>) = 0
   \<and> TouchPanelSetMatrix (Some (example_matrix\<lparr>Divider := 0\<rparr>)) example_state
        = (bad_parameter, example_state)
   \<and> Divider example_matrix \<noteq> 0
   \<and> TouchPanelSetMatrix (Some example_matrix) example_state
        = (noerror, example_state\<lparr>tpMatrix := example_matrix, touchState := no_touch\<rparr>)
   \<and> Divider (tpMatrix (snd (TouchPanelSetMatrix (Some example_matrix) example_state))) \<noteq> 0"
  using SetMatrix_contract [of None example_state]
    SetMatrix_contract [of "Some (example_matrix\<lparr>Divider := 0\<rparr>)" example_state]
    SetMatrix_contract [of "Some example_matrix" example_state]
  by (simp add: example_matrix_def)

subsection \<open>The watchdog ticker\<close>

lemma run_ticker_add: "run_ticker (a + b) s = run_ticker b (run_ticker a s)"
  by (induction b) simp_all

lemma run_ticker_idle:
  "touchTimer s + TOUCH_TICKER_uS * int k \<le> NOTOUCH_TIMEOUT_uS
     \<Longrightarrow> run_ticker k s = s\<lparr>touchTimer := touchTimer s + TOUCH_TICKER_uS * int k\<rparr>"
proof (induction k)
  case 0
  then show ?case by simp
next
  case (Suc k)
  from Suc.prems have le: "touchTimer s + TOUCH_TICKER_uS * int k \<le> NOTOUCH_TIMEOUT_uS"
    by (simp add: TOUCH_TICKER_uS_def algebra_simps)
  from Suc.prems show ?case
    by (simp add: Suc.IH [OF le] ticker_period_def TouchTicker_def elapse_us_def algebra_simps)
qed

lemma ticker_period_fires:
  "touchTimer s + TOUCH_TICKER_uS > NOTOUCH_TIMEOUT_uS
     \<Longrightarrow> ticker_period s = s\<lparr>touchSample := 0,
            touchState := (if touchState s = held then release else no_touch), touchTimer := 0\<rparr>"
  by (simp add: ticker_period_def TouchTicker_def elapse_us_def)

lemma run_ticker_after_reset:
  assumes "touchTimer s = 0"
  shows "k \<le> 100 \<Longrightarrow> touchState (run_ticker k s) = touchState s"
    and "run_ticker 101 s = s\<lparr>touchSample := 0,
            touchState := (if touchState s = held then release else no_touch), touchTimer := 0\<rparr>"
proof -
  have idle: "run_ticker k s = s\<lparr>touchTimer := TOUCH_TICKER_uS * int k\<rparr>" if "k \<le> 100" for k
    using run_ticker_idle [of s k] that assms
    by (simp add: TOUCH_TICKER_uS_def NOTOUCH_TIMEOUT_uS_def)
  show "k \<le> 100 \<Longrightarrow> touchState (run_ticker k s) = touchState s"
    by (simp add: idle)
  have "run_ticker 101 s = ticker_period (run_ticker 100 s)"
    by (simp add: eval_nat_numeral)
  also have "\<dots> = ticker_period (s\<lparr>touchTimer := TOUCH_TICKER_uS * int 100\<rparr>)"
    by (simp add: idle)
  also have "\<dots> = s\<lparr>touchSample := 0,
            touchState := (if touchState s = held then release else no_touch), touchTimer := 0\<rparr>"
    by (simp add: ticker_period_fires TOUCH_TICKER_uS_def NOTOUCH_TIMEOUT_uS_def)
  finally show "run_ticker 101 s = s\<lparr>touchSample := 0,
            touchState := (if touchState s = held then release else no_touch), touchTimer := 0\<rparr>" .
qed

lemma timeout_div_facts:
  fixes t :: int
  assumes "t \<le> 100000"
  shows "0 \<le> (100000 - t) div 1000"
    and "t + 1000 * ((100000 - t) div 1000) \<le> 100000"
    and "100000 < t + 1000 * ((100000 - t) div 1000) + 1000"
proof -
  have "0 \<le> 100000 - t" using assms by simp
  then show "0 \<le> (100000 - t) div 1000" by (simp add: pos_imp_zdiv_nonneg_iff)
  have "(100000 - t) = 1000 * ((100000 - t) div 1000) + (100000 - t) mod 1000" by simp
  moreover have "0 \<le> (100000 - t) mod 1000" "(100000 - t) mod 1000 < 1000" by simp_all
  ultimately show "t + 1000 * ((100000 - t) div 1000) \<le> 100000"
    and "100000 < t + 1000 * ((100000 - t) div 1000) + 1000" by linarith+
qed

lemma run_ticker_first_timeout:
  shows "k < ticks_to_timeout (touchTimer s) \<Longrightarrow> touchState (run_ticker k s) = touchState s"
    and "run_ticker (ticks_to_timeout (touchTimer s)) s = s\<lparr>touchSample := 0,
            touchState := (if touchState s = held then release else no_touch), touchTimer := 0\<rparr>"
proof -
  define m where "m = nat ((100000 - touchTimer s) div 1000)"
  have n: "ticks_to_timeout (touchTimer s) = Suc m"
    by (simp add: m_def ticks_to_timeout_def NOTOUCH_TIMEOUT_uS_def TOUCH_TICKER_uS_def)
  have idle: "run_ticker k s = s\<lparr>touchTimer := touchTimer s + 1000 * int k\<rparr>"
    if "k \<le> m" "touchTimer s \<le> 100000" for k
  proof -
    have "int k \<le> (100000 - touchTimer s) div 1000"
      using that timeout_div_facts(1) [of "touchTimer s"] by (simp add: m_def)
    then have "touchTimer s + 1000 * int k \<le> 100000"
      using timeout_div_facts(2) [OF that(2)] by linarith
    then show ?thesis
      using run_ticker_idle [of s k] by (simp add: NOTOUCH_TIMEOUT_uS_def TOUCH_TICKER_uS_def)
  qed
  have m0: "m = 0" if "\<not> touchTimer s \<le> 100000"
    using that by (simp add: m_def)
  show "touchState (run_ticker k s) = touchState s" if "k < ticks_to_timeout (touchTimer s)"
  proof (cases "touchTimer s \<le> 100000")
    case True
    from that have "k \<le> m" by (simp add: n)
    then show ?thesis by (simp add: idle True)
  next
    case False
    with that m0 have "k = 0" by (simp add: n)
    then show ?thesis by simp
  qed
  obtain t where fire: "100000 < t + 1000" and rm: "run_ticker m s = s\<lparr>touchTimer := t\<rparr>"
  proof (cases "touchTimer s \<le> 100000")
    case True
    have "int m = (100000 - touchTimer s) div 1000"
      using timeout_div_facts(1) [OF True] by (simp add: m_def)
    then have "100000 < (touchTimer s + 1000 * int m) + 1000"
      using timeout_div_facts(3) [OF True] by simp
    then show ?thesis using that idle [of m] True by blast
  next
    case False
    then have "100000 < touchTimer s + 1000" "run_ticker m s = s\<lparr>touchTimer := touchTimer s\<rparr>"
      by (simp_all add: m0)
    then show ?thesis using that by blast
  qed
  have "run_ticker (ticks_to_timeout (touchTimer s)) s = ticker_period (run_ticker m s)"
    by (simp add: n)
  also have "\<dots> = ticker_period (s\<lparr>touchTimer := t\<rparr>)"
    by (simp add: rm)
  also have "\<dots> = s\<lparr>touchSample := 0,
            touchState := (if touchState s = held then release else no_touch), touchTimer := 0\<rparr>"
    using fire by (simp add: ticker_period_fires NOTOUCH_TIMEOUT_uS_def TOUCH_TICKER_uS_def)
  finally show "run_ticker (ticks_to_timeout (touchTimer s)) s = s\<lparr>touchSample := 0,
            touchState := (if touchState s = held then release else no_touch), touchTimer := 0\<rparr>" .
qed

text \<open>C5, as stated, fails: a timed-out check moves \<open>touch\<close> straight to \<open>no_touch\<close>,
  and a timer that reads exactly 100000 microseconds does not time out.\<close>

theorem watchdog_counterexample:
  "NOTOUCH_TIMEOUT_uS \<le> touchTimer (example_state\<lparr>touchState := touch, touchTimer := 100001\<rparr>)
   \<and> touchState (TouchTicker (example_state\<lparr>touchState := touch, touchTimer := 100001\<rparr>)) = no_touch
   \<and> NOTOUCH_TIMEOUT_uS \<le> touchTimer (example_state\<lparr>touchState := held, touchTimer := 100000\<rparr>)
   \<and> touchState (TouchTicker (example_state\<lparr>touchState := held, touchTimer := 100000\<rparr>)) = held"
  by (simp add: TouchTicker_def NOTOUCH_TIMEOUT_uS_def)

text \<open>C5, amended: a check that finds the timer at or below 100000 microseconds changes
  nothing. A check that finds it above moves \<open>held\<close> to \<open>release\<close> and every other state
  directly to \<open>no_touch\<close>, clears the sample index and the timer and leaves the matrix
  alone; with no new sample the state then stays as it is for the next 100 checks, and
  after the 101st it is \<open>no_touch\<close>.\<close>

theorem watchdog_check:
  "(touchTimer s \<le> NOTOUCH_TIMEOUT_uS \<longrightarrow> TouchTicker s = s)
   \<and> (NOTOUCH_TIMEOUT_uS < touchTimer s \<longrightarrow>
        (touchState s = held \<longrightarrow> touchState (TouchTicker s) = release)
      \<and> (touchState s \<noteq> held \<longrightarrow> touchState (TouchTicker s) = no_touch)
      \<and> touchSample (TouchTicker s) = 0 \<and> touchTimer (TouchTicker s) = 0
      \<and> tpMatrix (TouchTicker s) = tpMatrix s
      \<and> (\<forall>k\<le>100. touchState (run_ticker k (TouchTicker s)) = touchState (TouchTicker s))
      \<and> touchState (run_ticker 101 (TouchTicker s)) = no_touch)"
proof -
  have "touchState (run_ticker k (TouchTicker s)) = touchState (TouchTicker s)"
    if "NOTOUCH_TIMEOUT_uS < touchTimer s" "k \<le> 100" for k
    using that by (intro run_ticker_after_reset(1)) (simp_all add: TouchTicker_def)
  moreover have "touchState (run_ticker 101 (TouchTicker s)) = no_touch"
    if "NOTOUCH_TIMEOUT_uS < touchTimer s"
  proof -
    have "touchTimer (TouchTicker s) = 0" using that by (simp add: TouchTicker_def)
    from run_ticker_after_reset(2) [OF this] show ?thesis
      using that by (simp add: TouchTicker_def)
  qed
  ultimately show ?thesis by (simp add: TouchTicker_def)
qed

theorem watchdog_check_witness:
  "TouchTicker (example_state\<lparr>touchState := held, touchTimer := 100000\<rparr>)
      = example_state\<lparr>touchState := held, touchTimer := 100000\<rparr>
   \<and> touchState (TouchTicker (example_state\<lparr>touchState := held, touchTimer := 100001\<rparr>)) = release
   \<and> touchState (TouchTicker (example_state\<lparr>touchState := touch, touchTimer := 100001\<rparr>)) = no_touch
   \<and> touchState (run_ticker 101 (TouchTicker (example_state\<lparr>touchState := held, touchTimer := 100001\<rparr>)))
        = no_touch"
  using watchdog_check [of "example_state\<lparr>touchState := held, touchTimer := 100000\<rparr>"]
    watchdog_check [of "example_state\<lparr>touchState := held, touchTimer := 100001\<rparr>"]
    watchdog_check [of "example_state\<lparr>touchState := touch, touchTimer := 100001\<rparr>"]
  by (simp add: NOTOUCH_TIMEOUT_uS_def)

text \<open>C6: from \<open>held\<close>, with no sample arriving, the ticker alone leaves the state
  \<open>held\<close> until the first check that finds the timer above 100000 microseconds, which
  sets \<open>release\<close>; the state stays \<open>release\<close> for the next 100 checks, and the 101st
  check after the release sets \<open>no_touch\<close>.\<close>

theorem held_timeout_release_then_no_touch:
  assumes "touchState s = held"
  shows "(\<forall>k < ticks_to_timeout (touchTimer s). touchState (run_ticker k s) = held)
       \<and> touchState (run_ticker (ticks_to_timeout (touchTimer s)) s) = release
       \<and> (\<forall>k\<le>100. touchState (run_ticker (ticks_to_timeout (touchTimer s) + k) s) = release)
       \<and> touchState (run_ticker (ticks_to_timeout (touchTimer s) + 101) s) = no_touch"
proof -
  define n where "n = ticks_to_timeout (touchTimer s)"
  define s1 where "s1 = s\<lparr>touchSample := 0, touchState := release, touchTimer := 0\<rparr>"
  have before: "touchState (run_ticker k s) = held" if "k < n" for k
    using run_ticker_first_timeout(1) [of k s] that assms by (simp add: n_def)
  have at: "run_ticker n s = s1"
    using run_ticker_first_timeout(2) [of s] assms by (simp add: n_def s1_def)
  have t0: "touchTimer s1 = 0" by (simp add: s1_def)
  have after: "touchState (run_ticker (n + k) s) = release" if "k \<le> 100" for k
    using run_ticker_after_reset(1) [OF t0 that] by (simp add: run_ticker_add at) (simp add: s1_def)
  have final: "touchState (run_ticker (n + 101) s) = no_touch"
    using run_ticker_after_reset(2) [OF t0] by (simp add: run_ticker_add at) (simp add: s1_def)
  from before at after final show ?thesis
    unfolding n_def [symmetric] by (simp add: s1_def)
qed

theorem held_timeout_witness:
  "touchState (example_state\<lparr>touchState := held\<rparr>) = held
   \<and> ticks_to_timeout (touchTimer (example_state\<lparr>touchState := held\<rparr>)) = 101
   \<and> touchState (run_ticker 100 (example_state\<lparr>touchState := held\<rparr>)) = held
   \<and> touchState (run_ticker 101 (example_state\<lparr>touchState := held\<rparr>)) = release
   \<and> touchState (run_ticker 201 (example_state\<lparr>touchState := held\<rparr>)) = release
   \<and> touchState (run_ticker 202 (example_state\<lparr>touchState := held\<rparr>)) = no_touch"
proof -
  have n: "ticks_to_timeout (touchTimer (example_state\<lparr>touchState := held\<rparr>)) = 101"
    by (simp add: example_state_def ticks_to_timeout_def NOTOUCH_TIMEOUT_uS_def TOUCH_TICKER_uS_def)
  have h: "touchState (example_state\<lparr>touchState := held\<rparr>) = held" by simp
  note c = held_timeout_release_then_no_touch [OF h, unfolded n]
  from c have "touchState (run_ticker 100 (example_state\<lparr>touchState := held\<rparr>)) = held"
    by simp
  moreover from c have "touchState (run_ticker 101 (example_state\<lparr>touchState := held\<rparr>)) = release"
    by simp
  moreover from c have "touchState (run_ticker (101 + 100) (example_state\<lparr>touchState := held\<rparr>)) = release"
    by blast
  moreover from c have "touchState (run_ticker (101 + 101) (example_state\<lparr>touchState := held\<rparr>)) = no_touch"
    by simp
  ultimately show ?thesis using n h by simp
qed

subsection \<open>The calibration solver\<close>

lemma ComputeCalibration_Divider:
  "Divider (tpMatrix (snd (snd (TouchPanelComputeCalibration displayPtr screenPtr matrixPtr s))))
     = raw_Divider screenPtr"
  by (cases displayPtr; cases screenPtr) (simp add: TouchPanelComputeCalibration_def raw_Divider_def Let_def)

lemma ComputeCalibration_bad:
  assumes "raw_Divider screenPtr = 0"
  shows "TouchPanelComputeCalibration displayPtr screenPtr matrixPtr s
           = (bad_parameter, matrixPtr, s\<lparr>tpMatrix := (tpMatrix s)\<lparr>Divider := 0\<rparr>\<rparr>)"
  using assms
  by (cases displayPtr; cases screenPtr) (simp add: TouchPanelComputeCalibration_def raw_Divider_def Let_def)

lemma raw_Divider_collinear_samples: "raw_Divider collinear_samples = 0"
  by (simp add: raw_Divider_def collinear_samples_def promote_def)

text \<open>C1, as stated, fails: on a collinear input the solver has already overwritten the
  \<open>Divider\<close> of the active matrix (here 7) with 0 when it returns \<open>bad_parameter\<close>.\<close>

theorem ComputeCalibration_collinear_counterexample:
  "raw_Divider collinear_samples = 0
   \<and> fst (TouchPanelComputeCalibration test_targets collinear_samples None calibrated_state)
        = bad_parameter
   \<and> Divider (tpMatrix calibrated_state) = 7
   \<and> Divider (tpMatrix (snd (snd
        (TouchPanelComputeCalibration test_targets collinear_samples None calibrated_state)))) = 0"
  by (simp add: ComputeCalibration_bad raw_Divider_collinear_samples)
     (simp add: calibrated_state_def example_matrix_def)

text \<open>C1, amended: when the computed \<open>Divider\<close> is 0 the solver returns \<open>bad_parameter\<close>,
  writes nothing to the caller's matrix, and leaves the whole driver state unchanged but
  for the \<open>Divider\<close> of the active matrix, which is now 0; the six coefficients and the
  touch state are as before.\<close>

theorem ComputeCalibration_collinear:
  assumes "raw_Divider screenPtr = 0"
  shows "fst (TouchPanelComputeCalibration displayPtr screenPtr matrixPtr s) = bad_parameter
       \<and> fst (snd (TouchPanelComputeCalibration displayPtr screenPtr matrixPtr s)) = matrixPtr
       \<and> snd (snd (TouchPanelComputeCalibration displayPtr screenPtr matrixPtr s))
           = s\<lparr>tpMatrix := (tpMatrix s)\<lparr>Divider := 0\<rparr>\<rparr>"
  by (simp add: ComputeCalibration_bad [OF assms])

theorem ComputeCalibration_collinear_witness:
  "raw_Divider collinear_samples = 0
   \<and> TouchPanelComputeCalibration test_targets collinear_samples (Some example_matrix) calibrated_state
       = (bad_parameter, Some example_matrix,
          calibrated_state\<lparr>tpMatrix := (tpMatrix calibrated_state)\<lparr>Divider := 0\<rparr>\<rparr>)"
  using ComputeCalibration_collinear [OF raw_Divider_collinear_samples,
      of test_targets "Some example_matrix" calibrated_state]
  by (simp add: raw_Divider_collinear_samples prod_eq_iff)

subsection \<open>Round trip at the calibration anchors\<close>

lemma ring_id:
  fixes xs0 ys0 xs1 ys1 xs2 ys2 d0 d1 d2 :: "'a::comm_ring_1"
  shows "(((d0 - d2) * (ys1 - ys2)) - ((d1 - d2) * (ys0 - ys2))) * xs0
       + (((xs0 - xs2) * (d1 - d2)) - ((d0 - d2) * (xs1 - xs2))) * ys0
       + ((xs2 * d1 - xs1 * d2) * ys0 + (xs0 * d2 - xs2 * d0) * ys1 + (xs1 * d0 - xs0 * d1) * ys2)
       = d0 * (((xs0 - xs2) * (ys1 - ys2)) - ((xs1 - xs2) * (ys0 - ys2)))"
  by (simp add: algebra_simps)

lemma ring_id1:
  fixes xs0 ys0 xs1 ys1 xs2 ys2 d0 d1 d2 :: "'a::comm_ring_1"
  shows "(((d0 - d2) * (ys1 - ys2)) - ((d1 - d2) * (ys0 - ys2))) * xs1
       + (((xs0 - xs2) * (d1 - d2)) - ((d0 - d2) * (xs1 - xs2))) * ys1
       + ((xs2 * d1 - xs1 * d2) * ys0 + (xs0 * d2 - xs2 * d0) * ys1 + (xs1 * d0 - xs0 * d1) * ys2)
       = d1 * (((xs0 - xs2) * (ys1 - ys2)) - ((xs1 - xs2) * (ys0 - ys2)))"
  by (simp add: algebra_simps)

lemma ring_id2:
  fixes xs0 ys0 xs1 ys1 xs2 ys2 d0 d1 d2 :: "'a::comm_ring_1"
  shows "(((d0 - d2) * (ys1 - ys2)) - ((d1 - d2) * (ys0 - ys2))) * xs2
       + (((xs0 - xs2) * (d1 - d2)) - ((d0 - d2) * (xs1 - xs2))) * ys2
       + ((xs2 * d1 - xs1 * d2) * ys0 + (xs0 * d2 - xs2 * d0) * ys1 + (xs1 * d0 - xs0 * d1) * ys2)
       = d2 * (((xs0 - xs2) * (ys1 - ys2)) - ((xs1 - xs2) * (ys0 - ys2)))"
  by (simp add: algebra_simps)

lemma sdiv_mult_cancel: "b \<noteq> 0 \<Longrightarrow> (a * b) sdiv b = (a::int)"
  by (simp add: signed_divide_int_def abs_mult sgn_mult) (simp add: sgn_if)

lemma promote_eq: "promote v = word_of_int (sint v)"
  unfolding promote_def by (rule scast_eq)

lemma sint_word_of_int_32:
  "- (2 ^ 31) \<le> k \<Longrightarrow> k < 2 ^ 31 \<Longrightarrow> sint (word_of_int k :: 32 word) = k"
  by (simp add: sint_sbintrunc' signed_take_bit_int_eq_self)

lemma narrow_word_of_int: "(ucast (word_of_int k :: 32 word) :: 16 word) = word_of_int k"
  by (rule ucast_down_wi) (simp add: is_down)

lemma narrow_promote: "(ucast (promote v) :: 16 word) = v"
proof -
  have "(ucast (promote v) :: 16 word) = ucast (word_of_int (sint v) :: 32 word)"
    by (simp only: promote_eq)
  also have "\<dots> = (word_of_int (sint v) :: 16 word)" by (rule narrow_word_of_int)
  also have "\<dots> = scast v" by (rule scast_eq [symmetric])
  also have "\<dots> = v" by (rule scast_id)
  finally show ?thesis .
qed

lemma c_div_mult_cancel:
  assumes "word_of_int d \<noteq> (0 :: 32 word)"
    and "\<bar>d\<bar> < 2 ^ 31" and "\<bar>a * d\<bar> < 2 ^ 31"
  shows "c_div (word_of_int a * word_of_int d) (word_of_int d) = word_of_int a"
proof -
  from assms(1) have d0: "d \<noteq> 0" by (rule contrapos_nn) simp
  have "sint (word_of_int (a * d) :: 32 word) = a * d"
    using assms(3) by (intro sint_word_of_int_32) (simp_all add: abs_less_iff)
  moreover have "sint (word_of_int d :: 32 word) = d"
    using assms(2) by (intro sint_word_of_int_32) (simp_all add: abs_less_iff)
  ultimately show ?thesis
    unfolding c_div_def wi_hom_mult by (simp add: sdiv_mult_cancel [OF d0])
qed

lemma abs_mult_bound:
  fixes a b :: int
  assumes "\<bar>a\<bar> \<le> A" "\<bar>b\<bar> \<le> B"
  shows "\<bar>a * b\<bar> \<le> A * B"
proof -
  have "\<bar>a * b\<bar> = \<bar>a\<bar> * \<bar>b\<bar>" by (simp add: abs_mult)
  also have "\<dots> \<le> A * B" using assms by (intro mult_mono) auto
  finally show ?thesis .
qed

lemma divider_bound:
  fixes x0 x1 x2 y0 y1 y2 :: int
  assumes "0 \<le> x0" "x0 \<le> 1023" "0 \<le> x1" "x1 \<le> 1023" "0 \<le> x2" "x2 \<le> 1023"
    "0 \<le> y0" "y0 \<le> 1023" "0 \<le> y1" "y1 \<le> 1023" "0 \<le> y2" "y2 \<le> 1023"
  shows "\<bar>(x0 - x2) * (y1 - y2) - (x1 - x2) * (y0 - y2)\<bar> \<le> 2093058"
proof -
  have "\<bar>(x0 - x2) * (y1 - y2)\<bar> \<le> 1023 * 1023"
    using assms by (intro abs_mult_bound) auto
  moreover have "\<bar>(x1 - x2) * (y0 - y2)\<bar> \<le> 1023 * 1023"
    using assms by (intro abs_mult_bound) auto
  ultimately show ?thesis by linarith
qed

lemma target_times_divider_bound:
  fixes a d :: int
  assumes "0 \<le> a" "a \<le> 1023" "\<bar>d\<bar> \<le> 2093058"
  shows "\<bar>a * d\<bar> < 2 ^ 31"
proof -
  have "\<bar>a * d\<bar> \<le> 1023 * 2093058"
    using assms by (intro abs_mult_bound) auto
  then show ?thesis by simp
qed

text \<open>The quotient of target times divider by the divider, narrowed to 16 bits.\<close>

lemma anchor_quotient:
  assumes D: "D = word_of_int d" and nz: "D \<noteq> 0" and d: "\<bar>d\<bar> \<le> 2093058"
    and v: "0 \<le> sint v" "sint v \<le> 1023"
  shows "(ucast (c_div (promote v * D) D) :: 16 word) = v"
proof -
  have "\<bar>sint v * d\<bar> < 2 ^ 31" using v d by (rule target_times_divider_bound)
  moreover have "\<bar>d\<bar> < 2 ^ 31" using d by simp
  moreover have "word_of_int d \<noteq> (0 :: 32 word)" using nz D by simp
  ultimately have "c_div (word_of_int (sint v) * word_of_int d) (word_of_int d)
      = (word_of_int (sint v) :: 32 word)"
    by (intro c_div_mult_cancel)
  then have "c_div (promote v * D) D = promote v"
    by (simp only: promote_eq D)
  then show ?thesis by (simp only: narrow_promote)
qed

lemma raw_Divider_int:
  assumes "ten_bit s0" "ten_bit s1" "ten_bit s2"
  shows "\<exists>d. raw_Divider (s0, s1, s2) = word_of_int d \<and> \<bar>d\<bar> \<le> 2093058"
proof -
  let ?d = "(sint (p_x s0) - sint (p_x s2)) * (sint (p_y s1) - sint (p_y s2))
          - (sint (p_x s1) - sint (p_x s2)) * (sint (p_y s0) - sint (p_y s2))"
  have "raw_Divider (s0, s1, s2) = word_of_int ?d"
    unfolding raw_Divider_def prod.case promote_eq wi_hom_sub wi_hom_mult ..
  moreover have "\<bar>?d\<bar> \<le> 2093058"
    using assms unfolding ten_bit_def by (intro divider_bound) simp_all
  ultimately show ?thesis by blast
qed

lemma ComputeCalibration_good:
  fixes d0 d1 d2 s0 s1 s2 :: point_t and matrixPtr :: "tpMatrix_t option" and s :: RA8875
  assumes "raw_Divider (s0, s1, s2) \<noteq> 0"
  defines "R \<equiv> TouchPanelComputeCalibration (d0, d1, d2) (s0, s1, s2) matrixPtr s"
  defines "m \<equiv> tpMatrix (snd (snd R))"
  shows "fst R = noerror"
    and "fst (snd R) = (case matrixPtr of None \<Rightarrow> None | Some old \<Rightarrow> Some m)"
    and "touchState (snd (snd R)) = no_touch"
    and "Divider m = raw_Divider (s0, s1, s2)"
    and "An m = ((promote (p_x d0) - promote (p_x d2)) * (promote (p_y s1) - promote (p_y s2))) -
                ((promote (p_x d1) - promote (p_x d2)) * (promote (p_y s0) - promote (p_y s2)))"
    and "Bn m = ((promote (p_x s0) - promote (p_x s2)) * (promote (p_x d1) - promote (p_x d2))) -
                ((promote (p_x d0) - promote (p_x d2)) * (promote (p_x s1) - promote (p_x s2)))"
    and "Cn m = (promote (p_x s2) * promote (p_x d1) - promote (p_x s1) * promote (p_x d2)) * promote (p_y s0) +
                (promote (p_x s0) * promote (p_x d2) - promote (p_x s2) * promote (p_x d0)) * promote (p_y s1) +
                (promote (p_x s1) * promote (p_x d0) - promote (p_x s0) * promote (p_x d1)) * promote (p_y s2)"
    and "Dn m = ((promote (p_y d0) - promote (p_y d2)) * (promote (p_y s1) - promote (p_y s2))) -
                ((promote (p_y d1) - promote (p_y d2)) * (promote (p_y s0) - promote (p_y s2)))"
    and "En m = ((promote (p_x s0) - promote (p_x s2)) * (promote (p_y d1) - promote (p_y d2))) -
                ((promote (p_y d0) - promote (p_y d2)) * (promote (p_x s1) - promote (p_x s2)))"
    and "Fn m = (promote (p_x s2) * promote (p_y d1) - promote (p_x s1) * promote (p_y d2)) * promote (p_y s0) +
                (promote (p_x s0) * promote (p_y d2) - promote (p_x s2) * promote (p_y d0)) * promote (p_y s1) +
                (promote (p_x s1) * promote (p_y d0) - promote (p_x s0) * promote (p_y d1)) * promote (p_y s2)"
  using assms(1) unfolding R_def m_def
  by (simp_all add: TouchPanelComputeCalibration_def raw_Divider_def Let_def split: option.splits)

text \<open>C2, as stated, fails: for raw samples of a twelve-bit digitizer the products
  overflow 32 bits. With the non-collinear samples (0,0), (4000,0), (0,4000) and the
  targets (50,50), (430,150), (225,250) the matrix maps the second sample to
  (-106,-118) instead of (430,150).\<close>

theorem calibration_round_trip_counterexample:
  "raw_Divider samples_12bit = 16000000
   \<and> fst (TouchPanelComputeCalibration test_targets samples_12bit None example_state) = noerror
   \<and> calibrated_point
         (tpMatrix (snd (snd (TouchPanelComputeCalibration test_targets samples_12bit None example_state))))
         (promote 4000) (promote 0) = \<lparr>p_x = - 106, p_y = - 118\<rparr>
   \<and> \<lparr>p_x = - 106, p_y = - 118\<rparr> \<noteq> \<lparr>p_x = 430, p_y = 150 :: 16 word\<rparr>"
  by code_simp

text \<open>C2, amended: when the three raw samples and the three display targets have
  coordinates in 0..1023 and the computed \<open>Divider\<close> is not 0, the solver succeeds and the
  integer transform with the resulting matrix maps each raw sample to its target exactly.
  The targets (50,50), (430,150), (225,250) against the samples (100,100), (900,300),
  (500,600) are such an input.\<close>

theorem calibration_round_trip:
  assumes "ten_bit s0" "ten_bit s1" "ten_bit s2" "ten_bit d0" "ten_bit d1" "ten_bit d2"
    and "raw_Divider (s0, s1, s2) \<noteq> 0"
  shows "fst (TouchPanelComputeCalibration (d0, d1, d2) (s0, s1, s2) matrixPtr s) = noerror
       \<and> Divider (tpMatrix (snd (snd
            (TouchPanelComputeCalibration (d0, d1, d2) (s0, s1, s2) matrixPtr s)))) \<noteq> 0
       \<and> calibrated_point (tpMatrix (snd (snd
            (TouchPanelComputeCalibration (d0, d1, d2) (s0, s1, s2) matrixPtr s))))
            (promote (p_x s0)) (promote (p_y s0)) = d0
       \<and> calibrated_point (tpMatrix (snd (snd
            (TouchPanelComputeCalibration (d0, d1, d2) (s0, s1, s2) matrixPtr s))))
            (promote (p_x s1)) (promote (p_y s1)) = d1
       \<and> calibrated_point (tpMatrix (snd (snd
            (TouchPanelComputeCalibration (d0, d1, d2) (s0, s1, s2) matrixPtr s))))
            (promote (p_x s2)) (promote (p_y s2)) = d2"
proof -
  define m where "m = tpMatrix (snd (snd
      (TouchPanelComputeCalibration (d0, d1, d2) (s0, s1, s2) matrixPtr s)))"
  note g = ComputeCalibration_good [OF assms(7), of d0 d1 d2 matrixPtr s, folded m_def]
  have Dm: "Divider m = raw_Divider (s0, s1, s2)" by (rule g(4))
  have Dr: "Divider m = ((promote (p_x s0) - promote (p_x s2)) * (promote (p_y s1) - promote (p_y s2))) -
        ((promote (p_x s1) - promote (p_x s2)) * (promote (p_y s0) - promote (p_y s2)))"
    by (simp only: Dm raw_Divider_def prod.case)
  obtain d where d: "Divider m = word_of_int d" "\<bar>d\<bar> \<le> 2093058"
    using raw_Divider_int [OF assms(1-3)] Dm by auto
  have nz: "Divider m \<noteq> 0" using assms(7) Dm by simp
  have q: "(ucast (c_div (promote v * Divider m) (Divider m)) :: 16 word) = v"
    if "0 \<le> sint v" "sint v \<le> 1023" for v
    using d(1) nz d(2) that by (rule anchor_quotient)
  have x0: "An m * promote (p_x s0) + Bn m * promote (p_y s0) + Cn m = promote (p_x d0) * Divider m"
    unfolding g(5-7) Dr by (rule ring_id)
  have y0: "Dn m * promote (p_x s0) + En m * promote (p_y s0) + Fn m = promote (p_y d0) * Divider m"
    unfolding g(8-10) Dr by (rule ring_id)
  have x1: "An m * promote (p_x s1) + Bn m * promote (p_y s1) + Cn m = promote (p_x d1) * Divider m"
    unfolding g(5-7) Dr by (rule ring_id1)
  have y1: "Dn m * promote (p_x s1) + En m * promote (p_y s1) + Fn m = promote (p_y d1) * Divider m"
    unfolding g(8-10) Dr by (rule ring_id1)
  have x2: "An m * promote (p_x s2) + Bn m * promote (p_y s2) + Cn m = promote (p_x d2) * Divider m"
    unfolding g(5-7) Dr by (rule ring_id2)
  have y2: "Dn m * promote (p_x s2) + En m * promote (p_y s2) + Fn m = promote (p_y d2) * Divider m"
    unfolding g(8-10) Dr by (rule ring_id2)
  have p0: "calibrated_point m (promote (p_x s0)) (promote (p_y s0)) = d0"
    unfolding calibrated_point_def x0 y0 using assms(4) by (simp add: q ten_bit_def)
  have p1: "calibrated_point m (promote (p_x s1)) (promote (p_y s1)) = d1"
    unfolding calibrated_point_def x1 y1 using assms(5) by (simp add: q ten_bit_def)
  have p2: "calibrated_point m (promote (p_x s2)) (promote (p_y s2)) = d2"
    unfolding calibrated_point_def x2 y2 using assms(6) by (simp add: q ten_bit_def)
  from g(1) nz p0 p1 p2 show ?thesis unfolding m_def by simp
qed

theorem calibration_round_trip_witness:
  "raw_Divider test_samples = 320000
   \<and> calibrated_point
         (tpMatrix (snd (snd (TouchPanelComputeCalibration test_targets test_samples None example_state))))
         100 100 = \<lparr>p_x = 50, p_y = 50\<rparr>
   \<and> calibrated_point
         (tpMatrix (snd (snd (TouchPanelComputeCalibration test_targets test_samples None example_state))))
         900 300 = \<lparr>p_x = 430, p_y = 150\<rparr>
   \<and> calibrated_point
         (tpMatrix (snd (snd (TouchPanelComputeCalibration test_targets test_samples None example_state))))
         500 600 = \<lparr>p_x = 225, p_y = 250\<rparr>"
proof -
  have d: "raw_Divider test_samples = 320000"
    by (simp add: raw_Divider_def test_samples_def promote_def)
  have nz: "raw_Divider (\<lparr>p_x = 100, p_y = 100\<rparr>, \<lparr>p_x = 900, p_y = 300\<rparr>, \<lparr>p_x = 500, p_y = 600\<rparr>) \<noteq> 0"
    using d by (simp add: test_samples_def)
  have t: "ten_bit \<lparr>p_x = 100, p_y = 100\<rparr>" "ten_bit \<lparr>p_x = 900, p_y = 300\<rparr>"
    "ten_bit \<lparr>p_x = 500, p_y = 600\<rparr>" "ten_bit \<lparr>p_x = 50, p_y = 50\<rparr>"
    "ten_bit \<lparr>p_x = 430, p_y = 150\<rparr>" "ten_bit \<lparr>p_x = 225, p_y = 250\<rparr>"
    by (simp_all add: ten_bit_def)
  from calibration_round_trip [OF t nz, of None example_state] d
  show ?thesis by (simp add: test_samples_def test_targets_def promote_def)
qed

subsection \<open>The noise filter\<close>

lemma length_InsertionSort_inner [simp]:
  "length (InsertionSort_inner buf j temp) = length buf"
  by (induction buf j temp rule: InsertionSort_inner.induct) simp_all

lemma length_InsertionSort_outer [simp]:
  "length (InsertionSort_outer buf i bufsize) = length buf"
proof (induction buf i bufsize rule: InsertionSort_outer.induct)
  case (1 buf i bufsize)
  then show ?case by (subst InsertionSort_outer.simps) simp
qed

lemma length_InsertionSort [simp]: "length (InsertionSort buf bufsize) = length buf"
  by (simp add: InsertionSort_def)

lemma A2DFiltered_no_flag:
  "\<not> touch_flag r \<Longrightarrow> TouchPanelA2DFiltered r xy s =
     (if touchState s = touch \<or> touchState s = held then
        Some (held, (lastX s, lastY s), s\<lparr>touchState := held\<rparr>)
      else if touchState s = release then
        Some (release, (lastX s, lastY s), s\<lparr>touchState := no_touch\<rparr>)
      else Some (touchState s, xy, s))"
  by (simp add: TouchPanelA2DFiltered_def)

lemma A2DFiltered_partial:
  "touch_flag r \<Longrightarrow> buffers_ok s \<Longrightarrow> touchSample s + 1 \<noteq> TPBUFSIZE \<Longrightarrow>
   TouchPanelA2DFiltered r xy s =
     (let s1 = s\<lparr>touchTimer := 0,
                 ybuf := (ybuf s)[touchSample s := a2d_y r],
                 xbuf := (xbuf s)[touchSample s := a2d_x r],
                 touchSample := touchSample s + 1\<rparr>
      in if touchState s = touch \<or> touchState s = held then
           Some (held, (lastX s, lastY s), s1\<lparr>touchState := held\<rparr>)
         else Some (touchState s, xy, s1))"
  by (simp add: TouchPanelA2DFiltered_def Let_def)

lemma A2DFiltered_full:
  "touch_flag r \<Longrightarrow> buffers_ok s \<Longrightarrow> touchSample s + 1 = TPBUFSIZE \<Longrightarrow>
   TouchPanelA2DFiltered r xy s =
     (let yb = InsertionSort ((ybuf s)[touchSample s := a2d_y r]) TPBUFSIZE;
          xb = InsertionSort ((xbuf s)[touchSample s := a2d_x r]) TPBUFSIZE;
          ny = scale_average (sum_loop yb avg_lo avg_hi 0);
          nx = scale_average (sum_loop xb avg_lo avg_hi 0);
          ts = (if touchState s = touch \<or> touchState s = held then held else touch)
      in Some (ts, (nx, ny),
               s\<lparr>touchTimer := 0, ybuf := yb, xbuf := xb, lastY := ny, lastX := nx,
                 touchState := ts, touchSample := 0\<rparr>))"
  by (simp add: TouchPanelA2DFiltered_def Let_def)

lemma A2DFiltered_cases:
  assumes "buffers_ok s \<or> \<not> touch_flag r"
  shows "\<exists>ts xy' s'. TouchPanelA2DFiltered r xy s = Some (ts, xy', s')
    \<and> tpMatrix s' = tpMatrix s \<and> (buffers_ok s \<longrightarrow> buffers_ok s')
    \<and> touchInfo s' = touchInfo s \<and> panelTouched s' = panelTouched s
    \<and> useTouchPanel s' = useTouchPanel s"
proof (cases "touch_flag r")
  case False
  then show ?thesis by (simp add: A2DFiltered_no_flag buffers_ok_def)
next
  case True
  with assms have ok: "buffers_ok s" by simp
  show ?thesis
  proof (cases "touchSample s + 1 = TPBUFSIZE")
    case full: True
    have "0 < TPBUFSIZE" by (simp add: TPBUFSIZE_def)
    then show ?thesis using ok
      by (simp add: A2DFiltered_full [OF True ok full] Let_def buffers_ok_def)
  next
    case part: False
    show ?thesis using ok part
      by (simp add: A2DFiltered_partial [OF True ok part] Let_def buffers_ok_def)
  qed
qed

lemma InsertionSort_inner_unfold:
  "InsertionSort_inner buf j temp =
     (if j = 0 then buf[0 := temp]
      else if buf ! (j - 1) > temp then InsertionSort_inner (buf[j := buf ! (j - 1)]) (j - 1) temp
      else buf[j := temp])"
  by (cases j) simp_all

lemma inner_identical:
  "j < length buf \<Longrightarrow> \<forall>i<length buf. buf ! i = v \<Longrightarrow> InsertionSort_inner buf j v = buf"
  by (subst InsertionSort_inner_unfold) (auto simp: list_update_same_conv)

lemma outer_identical:
  "bufsize \<le> length buf \<Longrightarrow> \<forall>i<length buf. buf ! i = v \<Longrightarrow> InsertionSort_outer buf i bufsize = buf"
proof (induction buf i bufsize rule: InsertionSort_outer.induct)
  case (1 buf i bufsize)
  show ?case
  proof (cases "i < bufsize")
    case True
    with 1 have "InsertionSort_inner buf i (buf ! i) = buf"
      by (intro inner_identical) auto
    with 1 True show ?thesis by (subst InsertionSort_outer.simps) simp
  next
    case False
    then show ?thesis by (subst InsertionSort_outer.simps) simp
  qed
qed

lemma sort_identical: "InsertionSort (replicate n v) n = replicate n v"
  unfolding InsertionSort_def by (rule outer_identical [where v = v]) simp_all

lemma sum_loop_identical:
  "hi \<le> length buf \<Longrightarrow> \<forall>i<length buf. buf ! i = v \<Longrightarrow>
     sum_loop buf i hi j = j + int (hi - i) * v"
proof (induction buf i hi j rule: sum_loop.induct)
  case (1 buf i hi j)
  show ?case
  proof (cases "i < hi")
    case True
    with 1 show ?thesis
      by (subst sum_loop.simps) (simp add: Suc_diff_Suc algebra_simps)
  next
    case False
    then show ?thesis by (subst sum_loop.simps) simp
  qed
qed

lemma identical_batch_output:
  assumes "touch_flag r" and "touchSample s = 15"
    and "xbuf s = replicate 16 (a2d_x r)" and "ybuf s = replicate 16 (a2d_y r)"
  shows "map_option (fst \<circ> snd) (TouchPanelA2DFiltered r xy s)
           = Some ((9 * a2d_x r * 2) sdiv 16, (9 * a2d_y r * 2) sdiv 16)"
proof -
  have upd: "(replicate 16 v)[15 := v] = replicate 16 v" for v :: int
    by (simp add: list_update_same_conv)
  have srt: "InsertionSort (replicate 16 v) 16 = replicate 16 v" for v :: int
    by (rule sort_identical)
  have sm: "sum_loop (replicate 16 v) 3 12 0 = 9 * v" for v :: int
    using sum_loop_identical [of 12 "replicate 16 v" v 3 0] by simp
  show ?thesis
    using assms
    by (simp add: TouchPanelA2DFiltered_def buffers_ok_def TPBUFSIZE_def Let_def avg_lo_def
        avg_hi_def upd srt sm scale_average_def)
qed

text \<open>C3: the filter is meant to discard the four lowest and the four highest of the
  sixteen sorted samples and to average the eight in between, so that sixteen equal
  samples give that sample back. The code does not do so: both averaging loops start at
  index \<open>TPBUFSIZE/4 - 1 = 3\<close>, so nine sorted entries are summed and the sum is divided
  by eight. Sixteen polls that all read the sample 1000 on both axes produce the filtered
  pair (1125, 1125).\<close>

theorem filter_identical_samples:
  "map_option (fst \<circ> snd)
     (poll_all (replicate 16 sample_1000) (no_cal, (0, 0), example_state)) = Some (1125, 1125)
   \<and> a2d_x sample_1000 = 1000 \<and> a2d_y sample_1000 = 1000"
  by code_simp

lemma A2DFiltered_full_value:
  assumes "touch_flag r" "buffers_ok s" "touchSample s + 1 = TPBUFSIZE"
  shows "TouchPanelA2DFiltered r xy s =
     Some (if touchState s = touch \<or> touchState s = held then held else touch,
           (filtered_value ((xbuf s)[touchSample s := a2d_x r]),
            filtered_value ((ybuf s)[touchSample s := a2d_y r])),
           s\<lparr>touchTimer := 0,
             ybuf := InsertionSort ((ybuf s)[touchSample s := a2d_y r]) TPBUFSIZE,
             xbuf := InsertionSort ((xbuf s)[touchSample s := a2d_x r]) TPBUFSIZE,
             lastY := filtered_value ((ybuf s)[touchSample s := a2d_y r]),
             lastX := filtered_value ((xbuf s)[touchSample s := a2d_x r]),
             touchState := (if touchState s = touch \<or> touchState s = held then held else touch),
             touchSample := 0\<rparr>)"
  by (simp add: A2DFiltered_full [OF assms] Let_def filtered_value_def)

lemma A2DFiltered_replay:
  assumes "buffers_ok s" and "touchState s = touch \<or> touchState s = held"
    and "\<not> (touch_flag r \<and> touchSample s + 1 = TPBUFSIZE)"
  shows "TouchPanelA2DFiltered r xy s =
     Some (held, (lastX s, lastY s),
           if touch_flag r then
             s\<lparr>touchTimer := 0,
               ybuf := (ybuf s)[touchSample s := a2d_y r],
               xbuf := (xbuf s)[touchSample s := a2d_x r],
               touchSample := touchSample s + 1,
               touchState := held\<rparr>
           else s\<lparr>touchState := held\<rparr>)"
proof (cases "touch_flag r")
  case True
  with assms(3) have "touchSample s + 1 \<noteq> TPBUFSIZE" by simp
  from A2DFiltered_partial [OF True assms(1) this] assms(2) True show ?thesis
    by (simp add: Let_def)
next
  case False
  with assms(2) show ?thesis by (simp add: A2DFiltered_no_flag)
qed

lemma poll_all_replay:
  assumes "buffers_ok s" and "touchState s = touch \<or> touchState s = held"
    and "touchSample s + length (filter touch_flag rs) < TPBUFSIZE" and "rs \<noteq> []"
  shows "\<exists>s'. poll_all rs (ts, xy, s) = Some (held, (lastX s, lastY s), s')
           \<and> lastX s' = lastX s \<and> lastY s' = lastY s"
  using assms
proof (induction rs arbitrary: ts xy s)
  case Nil
  then show ?case by simp
next
  case (Cons r rs)
  have nc: "\<not> (touch_flag r \<and> touchSample s + 1 = TPBUFSIZE)"
    using Cons.prems(3) by auto
  define s1 where "s1 = (if touch_flag r then
             s\<lparr>touchTimer := 0,
               ybuf := (ybuf s)[touchSample s := a2d_y r],
               xbuf := (xbuf s)[touchSample s := a2d_x r],
               touchSample := touchSample s + 1,
               touchState := held\<rparr>
           else s\<lparr>touchState := held\<rparr>)"
  have step: "TouchPanelA2DFiltered r xy s = Some (held, (lastX s, lastY s), s1)"
    unfolding s1_def by (rule A2DFiltered_replay [OF Cons.prems(1,2) nc])
  have s1: "buffers_ok s1" "touchState s1 = touch \<or> touchState s1 = held"
    "lastX s1 = lastX s" "lastY s1 = lastY s"
    "touchSample s1 + length (filter touch_flag rs) < TPBUFSIZE"
    using Cons.prems(1,3) by (auto simp: s1_def buffers_ok_def)
  show ?case
  proof (cases "rs = []")
    case True
    then show ?thesis by (simp add: step s1)
  next
    case False
    from Cons.IH [OF s1(1,2,5) False, of held "(lastX s, lastY s)"] show ?thesis
      by (simp add: step s1)
  qed
qed

lemma A2DFiltered_keeps_last:
  assumes "buffers_ok s" and "\<not> (touch_flag r \<and> touchSample s + 1 = TPBUFSIZE)"
  shows "\<exists>ts xy' s'. TouchPanelA2DFiltered r xy s = Some (ts, xy', s')
           \<and> lastX s' = lastX s \<and> lastY s' = lastY s"
proof (cases "touch_flag r")
  case True
  with assms(2) have "touchSample s + 1 \<noteq> TPBUFSIZE" by simp
  from A2DFiltered_partial [OF True assms(1) this] show ?thesis by (simp add: Let_def)
next
  case False
  then show ?thesis by (simp add: A2DFiltered_no_flag)
qed

lemma TouchTicker_keeps_last: "lastX (TouchTicker s) = lastX s \<and> lastY (TouchTicker s) = lastY s"
  by (simp add: TouchTicker_def)

text \<open>C7: a call that completes a batch returns the filter's value of that batch for
  both axes (the buffer with the new sample, sorted, its middle entries summed and
  scaled), stores it in \<open>lastX\<close> and \<open>lastY\<close>, restarts the buffer, and leaves the touch
  state \<open>touch\<close> or \<open>held\<close>; every later call, as long as fewer than \<open>TPBUFSIZE\<close> new
  samples have arrived, returns \<open>held\<close> with that same value. In general, a call that does
  not complete a batch, made while the touch state is \<open>touch\<close> or \<open>held\<close>, writes
  \<open>lastX\<close> and \<open>lastY\<close> to the outputs and returns \<open>held\<close>; it changes nothing but the
  touch state, which becomes \<open>held\<close>, and, if there is a new sample, the buffer entry for
  it, the sample index and the touch timer. Whatever the touch state, a call that does not
  complete a batch leaves \<open>lastX\<close> and \<open>lastY\<close> as they are, and so does the ticker: they
  hold the value of the latest completed batch, or their initial values before the first
  one.\<close>

theorem A2DFiltered_before_batch_full:
  assumes "buffers_ok s"
  shows "(touch_flag r \<and> touchSample s + 1 = TPBUFSIZE \<longrightarrow>
            (\<exists>ts s'. TouchPanelA2DFiltered r xy s =
                 Some (ts, (filtered_value ((xbuf s)[touchSample s := a2d_x r]),
                            filtered_value ((ybuf s)[touchSample s := a2d_y r])), s')
               \<and> ts = (if touchState s = touch \<or> touchState s = held then held else touch)
               \<and> touchState s' = ts
               \<and> lastX s' = filtered_value ((xbuf s)[touchSample s := a2d_x r])
               \<and> lastY s' = filtered_value ((ybuf s)[touchSample s := a2d_y r])
               \<and> touchSample s' = 0
               \<and> (\<forall>rs. rs \<noteq> [] \<and> length (filter touch_flag rs) < TPBUFSIZE \<longrightarrow>
                     (\<exists>s''. poll_all rs
                          (ts, (filtered_value ((xbuf s)[touchSample s := a2d_x r]),
                                filtered_value ((ybuf s)[touchSample s := a2d_y r])), s')
                        = Some (held, (filtered_value ((xbuf s)[touchSample s := a2d_x r]),
                                       filtered_value ((ybuf s)[touchSample s := a2d_y r])), s'')))))
       \<and> (\<not> (touch_flag r \<and> touchSample s + 1 = TPBUFSIZE)
            \<and> (touchState s = touch \<or> touchState s = held) \<longrightarrow>
            TouchPanelA2DFiltered r xy s =
              Some (held, (lastX s, lastY s),
                    if touch_flag r then
                      s\<lparr>touchTimer := 0,
                        ybuf := (ybuf s)[touchSample s := a2d_y r],
                        xbuf := (xbuf s)[touchSample s := a2d_x r],
                        touchSample := touchSample s + 1,
                        touchState := held\<rparr>
                    else s\<lparr>touchState := held\<rparr>))
       \<and> (\<not> (touch_flag r \<and> touchSample s + 1 = TPBUFSIZE) \<longrightarrow>
            (\<exists>ts xy' s'. TouchPanelA2DFiltered r xy s = Some (ts, xy', s')
               \<and> lastX s' = lastX s \<and> lastY s' = lastY s))
       \<and> lastX (TouchTicker s) = lastX s \<and> lastY (TouchTicker s) = lastY s"
proof (intro conjI impI)
  assume c: "touch_flag r \<and> touchSample s + 1 = TPBUFSIZE"
  let ?X = "filtered_value ((xbuf s)[touchSample s := a2d_x r])"
  let ?Y = "filtered_value ((ybuf s)[touchSample s := a2d_y r])"
  let ?ts = "if touchState s = touch \<or> touchState s = held then held else touch"
  let ?s' = "s\<lparr>touchTimer := 0,
             ybuf := InsertionSort ((ybuf s)[touchSample s := a2d_y r]) TPBUFSIZE,
             xbuf := InsertionSort ((xbuf s)[touchSample s := a2d_x r]) TPBUFSIZE,
             lastY := ?Y, lastX := ?X, touchState := ?ts, touchSample := 0\<rparr>"
  have v: "TouchPanelA2DFiltered r xy s = Some (?ts, (?X, ?Y), ?s')"
    using A2DFiltered_full_value [of r s xy] c assms by simp
  have b: "buffers_ok ?s'" using assms by (simp add: buffers_ok_def)
  have t: "touchState ?s' = touch \<or> touchState ?s' = held" by simp
  have replay: "\<exists>s''. poll_all rs (?ts, (?X, ?Y), ?s') = Some (held, (?X, ?Y), s'')"
    if "rs \<noteq> [] \<and> length (filter touch_flag rs) < TPBUFSIZE" for rs
  proof -
    from that have n: "touchSample ?s' + length (filter touch_flag rs) < TPBUFSIZE" by simp
    from that have ne: "rs \<noteq> []" by simp
    from poll_all_replay [OF b t n ne, of ?ts "(?X, ?Y)"] show ?thesis by auto
  qed
  show "\<exists>ts s'. TouchPanelA2DFiltered r xy s = Some (ts, (?X, ?Y), s')
               \<and> ts = (if touchState s = touch \<or> touchState s = held then held else touch)
               \<and> touchState s' = ts
               \<and> lastX s' = ?X \<and> lastY s' = ?Y \<and> touchSample s' = 0
               \<and> (\<forall>rs. rs \<noteq> [] \<and> length (filter touch_flag rs) < TPBUFSIZE \<longrightarrow>
                     (\<exists>s''. poll_all rs (ts, (?X, ?Y), s') = Some (held, (?X, ?Y), s'')))"
  proof (intro exI conjI)
    show "TouchPanelA2DFiltered r xy s = Some (?ts, (?X, ?Y), ?s')" by (rule v)
    show "?ts = ?ts" by (rule refl)
    show "touchState ?s' = ?ts" by simp
    show "lastX ?s' = ?X" by simp
    show "lastY ?s' = ?Y" by simp
    show "touchSample ?s' = 0" by simp
    show "\<forall>rs. rs \<noteq> [] \<and> length (filter touch_flag rs) < TPBUFSIZE \<longrightarrow>
        (\<exists>s''. poll_all rs (?ts, (?X, ?Y), ?s') = Some (held, (?X, ?Y), s''))"
      using replay by blast
  qed
next
  assume a: "\<not> (touch_flag r \<and> touchSample s + 1 = TPBUFSIZE)
      \<and> (touchState s = touch \<or> touchState s = held)"
  then show "TouchPanelA2DFiltered r xy s =
              Some (held, (lastX s, lastY s),
                    if touch_flag r then
                      s\<lparr>touchTimer := 0,
                        ybuf := (ybuf s)[touchSample s := a2d_y r],
                        xbuf := (xbuf s)[touchSample s := a2d_x r],
                        touchSample := touchSample s + 1,
                        touchState := held\<rparr>
                    else s\<lparr>touchState := held\<rparr>)"
    using A2DFiltered_replay [OF assms, of r xy] by blast
next
  assume "\<not> (touch_flag r \<and> touchSample s + 1 = TPBUFSIZE)"
  from A2DFiltered_keeps_last [OF assms this]
  show "\<exists>ts xy' s'. TouchPanelA2DFiltered r xy s = Some (ts, xy', s')
               \<and> lastX s' = lastX s \<and> lastY s' = lastY s" .
next
  show "lastX (TouchTicker s) = lastX s" by (simp add: TouchTicker_keeps_last)
next
  show "lastY (TouchTicker s) = lastY s" by (simp add: TouchTicker_keeps_last)
qed

theorem A2DFiltered_before_batch_full_witness:
  "buffers_ok last_of_batch \<and> touch_flag sample_1000 \<and> touchSample last_of_batch + 1 = TPBUFSIZE
   \<and> map_option (\<lambda>res. (fst res, fst (snd res)))
          (TouchPanelA2DFiltered sample_1000 (0, 0) last_of_batch) = Some (touch, (1125, 1125))
   \<and> map_option (\<lambda>res. (fst res, fst (snd res)))
          (Option.bind (TouchPanelA2DFiltered sample_1000 (0, 0) last_of_batch)
             (poll_all [no_new_sample, sample_1000, no_new_sample])) = Some (held, (1125, 1125))
   \<and> buffers_ok touching_state \<and> \<not> touch_flag no_new_sample
   \<and> touchSample touching_state + 1 \<noteq> TPBUFSIZE
   \<and> touchState touching_state = touch
   \<and> TouchPanelA2DFiltered sample_1000 (0, 0) touching_state
        = Some (held, (512, 300), touching_state\<lparr>touchTimer := 0,
             ybuf := (ybuf touching_state)[3 := 1000], xbuf := (xbuf touching_state)[3 := 1000],
             touchSample := 4, touchState := held\<rparr>)
   \<and> TouchPanelA2DFiltered no_new_sample (0, 0) touching_state
        = Some (held, (512, 300), touching_state\<lparr>touchState := held\<rparr>)"
proof -
  have h: "buffers_ok touching_state"
    by (simp add: touching_state_def example_state_def buffers_ok_def TPBUFSIZE_def)
  have hb: "buffers_ok last_of_batch"
    by (simp add: last_of_batch_def example_state_def buffers_ok_def TPBUFSIZE_def)
  have f: "touch_flag sample_1000" "\<not> touch_flag no_new_sample"
    by (simp_all add: touch_flag_def sample_1000_def no_new_sample_def RA8875_INT_TP_def)
  have n: "touchSample touching_state + 1 \<noteq> TPBUFSIZE" "touchState touching_state = touch"
    "lastX touching_state = 512" "lastY touching_state = 300" "touchSample touching_state = 3"
    by (simp_all add: touching_state_def example_state_def TPBUFSIZE_def)
  have a: "a2d_x sample_1000 = 1000" "a2d_y sample_1000 = 1000"
    by (simp_all add: a2d_x_def a2d_y_def sample_1000_def)
  have b: "touchSample last_of_batch + 1 = TPBUFSIZE" "touchState last_of_batch = no_cal"
    by (simp_all add: last_of_batch_def example_state_def TPBUFSIZE_def)
  have v: "filtered_value ((xbuf last_of_batch)[touchSample last_of_batch := a2d_x sample_1000]) = 1125"
    "filtered_value ((ybuf last_of_batch)[touchSample last_of_batch := a2d_y sample_1000]) = 1125"
    by code_simp+
  have l: "length (filter touch_flag [no_new_sample, sample_1000, no_new_sample]) < TPBUFSIZE"
    by (simp add: TPBUFSIZE_def)
  from A2DFiltered_before_batch_full [OF hb, of sample_1000 "(0, 0)"] f b hb
  obtain s' where s': "TouchPanelA2DFiltered sample_1000 (0, 0) last_of_batch
        = Some (touch, (1125, 1125), s')"
    and r: "\<forall>rs. rs \<noteq> [] \<and> length (filter touch_flag rs) < TPBUFSIZE \<longrightarrow>
        (\<exists>s''. poll_all rs (touch, (1125, 1125), s') = Some (held, (1125, 1125), s''))"
    unfolding v by auto
  from r l obtain s'' where
    "poll_all [no_new_sample, sample_1000, no_new_sample] (touch, (1125, 1125), s')
       = Some (held, (1125, 1125), s'')" by blast
  with s' have c1: "map_option (\<lambda>res. (fst res, fst (snd res)))
          (TouchPanelA2DFiltered sample_1000 (0, 0) last_of_batch) = Some (touch, (1125, 1125))"
    "map_option (\<lambda>res. (fst res, fst (snd res)))
          (Option.bind (TouchPanelA2DFiltered sample_1000 (0, 0) last_of_batch)
             (poll_all [no_new_sample, sample_1000, no_new_sample])) = Some (held, (1125, 1125))"
    by simp_all
  from A2DFiltered_before_batch_full [OF h, of sample_1000 "(0, 0)"]
    A2DFiltered_before_batch_full [OF h, of no_new_sample "(0, 0)"]
  have c2: "TouchPanelA2DFiltered sample_1000 (0, 0) touching_state
        = Some (held, (512, 300), touching_state\<lparr>touchTimer := 0,
             ybuf := (ybuf touching_state)[3 := 1000], xbuf := (xbuf touching_state)[3 := 1000],
             touchSample := 4, touchState := held\<rparr>)"
    "TouchPanelA2DFiltered no_new_sample (0, 0) touching_state
        = Some (held, (512, 300), touching_state\<lparr>touchState := held\<rparr>)"
    using f n a by simp_all
  from c1 c2 h hb f n b show ?thesis by simp
qed

subsection \<open>TouchPanelReadable\<close>

lemma A2DFiltered_Some_D:
  "TouchPanelA2DFiltered r xy s = Some res \<Longrightarrow> buffers_ok s \<or> \<not> touch_flag r"
  by (simp add: TouchPanelA2DFiltered_def split: if_splits)

lemma A2DFiltered_frame:
  assumes "TouchPanelA2DFiltered r xy s = Some (ts, xy', s')"
  shows "tpMatrix s' = tpMatrix s" "touchInfo s' = touchInfo s" "panelTouched s' = panelTouched s"
    "useTouchPanel s' = useTouchPanel s" "buffers_ok s \<Longrightarrow> buffers_ok s'"
  using A2DFiltered_cases [OF A2DFiltered_Some_D [OF assms], of xy] assms by auto

lemma Readable_resistive_Some:
  assumes "TouchPanelA2DFiltered r (0, 0) (set_touchInfo0 (touchID_update (\<lambda>_. 0)) s)
             = Some (ts, xy', s1)"
  shows "\<exists>s3. Readable_resistive r s
            = Some (if ts \<noteq> no_touch \<and> Divider (tpMatrix s) = 0 then no_cal else ts, s3)
          \<and> panelTouched s3 = (ts \<noteq> no_touch \<or> panelTouched s)
          \<and> touchCode (touchInfo s3 0)
               = (if ts \<noteq> no_touch \<and> Divider (tpMatrix s) = 0 then no_cal else ts)
          \<and> (ts = no_touch \<or> Divider (tpMatrix s) = 0
                \<longrightarrow> coordinates (touchInfo s3 0) = coordinates (touchInfo s 0))
          \<and> tpMatrix s3 = tpMatrix s \<and> useTouchPanel s3 = useTouchPanel s
          \<and> (buffers_ok s \<longrightarrow> buffers_ok s3)"
proof -
  let ?s0 = "set_touchInfo0 (touchID_update (\<lambda>_. 0)) s"
  note fr = A2DFiltered_frame [OF assms]
  have s0: "tpMatrix ?s0 = tpMatrix s" "panelTouched ?s0 = panelTouched s"
    "useTouchPanel ?s0 = useTouchPanel s" "buffers_ok ?s0 = buffers_ok s"
    "coordinates (touchInfo ?s0 0) = coordinates (touchInfo s 0)"
    by (simp_all add: set_touchInfo0_def buffers_ok_def)
  obtain x' y' where xy': "xy' = (x', y')" by (cases xy')
  show ?thesis
    using fr s0 unfolding Readable_resistive_def assms xy'
    by (simp add: Let_def set_touchInfo0_def buffers_ok_def)
qed

text \<open>C9: called with a null pointer, \<open>TouchPanelReadable\<close> returns \<open>touch\<close> when
  \<open>panelTouched\<close> was set on entry or the resistive poll of this call reports anything but
  \<open>no_touch\<close>, whatever touch code is recorded for channel 0, and \<open>no_touch\<close> otherwise;
  in both cases \<open>panelTouched\<close> is clear afterwards, so the next such call returns
  \<open>no_touch\<close> unless a new event arrives.\<close>

theorem Readable_null_pointer:
  assumes "useTouchPanel s = TP_RES \<longrightarrow> buffers_ok s"
  shows "\<exists>s'. TouchPanelReadable r None s
            = Some (if panelTouched s \<or> new_event r s then touch else no_touch, None, s')
          \<and> \<not> panelTouched s' \<and> useTouchPanel s' = useTouchPanel s
          \<and> (buffers_ok s \<longrightarrow> buffers_ok s')"
proof (cases "useTouchPanel s = TP_RES")
  case False
  then show ?thesis by (simp add: TouchPanelReadable_def new_event_def buffers_ok_def)
next
  case True
  let ?s0 = "set_touchInfo0 (touchID_update (\<lambda>_. 0)) s"
  from True assms have "buffers_ok ?s0" by (simp add: set_touchInfo0_def buffers_ok_def)
  then obtain ts xy' s1 where f: "TouchPanelA2DFiltered r (0, 0) ?s0 = Some (ts, xy', s1)"
    using A2DFiltered_cases [of ?s0 r "(0, 0)"] by blast
  from Readable_resistive_Some [OF f] obtain s3 where
    rr: "Readable_resistive r s
            = Some (if ts \<noteq> no_touch \<and> Divider (tpMatrix s) = 0 then no_cal else ts, s3)"
    and s3: "panelTouched s3 = (ts \<noteq> no_touch \<or> panelTouched s)"
      "useTouchPanel s3 = useTouchPanel s" "buffers_ok s \<longrightarrow> buffers_ok s3"
    by blast
  have ne: "new_event r s = (ts \<noteq> no_touch)"
    using True by (simp add: new_event_def f)
  show ?thesis
    using True s3 by (auto simp: TouchPanelReadable_def rr ne Let_def buffers_ok_def)
qed

theorem Readable_null_pointer_witness:
  "buffers_ok example_state
   \<and> new_event no_new_sample example_state
   \<and> map_option fst (TouchPanelReadable no_new_sample None example_state) = Some touch
   \<and> \<not> panelTouched (example_state\<lparr>touchState := no_touch\<rparr>)
   \<and> \<not> new_event no_new_sample (example_state\<lparr>touchState := no_touch\<rparr>)
   \<and> map_option fst (TouchPanelReadable no_new_sample None (example_state\<lparr>touchState := no_touch\<rparr>))
        = Some no_touch"
proof -
  have b: "buffers_ok example_state"
    by (simp add: example_state_def buffers_ok_def TPBUFSIZE_def)
  have h: "useTouchPanel s = TP_RES \<longrightarrow> buffers_ok s"
    if "s = example_state \<or> s = example_state\<lparr>touchState := no_touch\<rparr>" for s
    using that b by (auto simp: buffers_ok_def)
  have f: "\<not> touch_flag no_new_sample"
    by (simp add: touch_flag_def no_new_sample_def RA8875_INT_TP_def)
  have e: "new_event no_new_sample example_state"
    "\<not> new_event no_new_sample (example_state\<lparr>touchState := no_touch\<rparr>)"
    "\<not> panelTouched (example_state\<lparr>touchState := no_touch\<rparr>)"
    by (simp_all add: new_event_def A2DFiltered_no_flag [OF f] set_touchInfo0_def example_state_def)
  from Readable_null_pointer [OF h, of example_state no_new_sample]
    Readable_null_pointer [OF h, of "example_state\<lparr>touchState := no_touch\<rparr>" no_new_sample]
  show ?thesis using e b by auto
qed

text \<open>C4, as stated, fails: with \<open>Divider = 0\<close> and a touch in progress, a call with a
  null pointer returns \<open>touch\<close>, and a call with a pointer returns \<open>no_cal\<close> but overwrites
  the caller's point (7,9) with the stored coordinates (0,0).\<close>

theorem Readable_uncalibrated_counterexample:
  "Divider (tpMatrix (example_state\<lparr>touchState := touch\<rparr>)) = 0
   \<and> map_option fst (TouchPanelReadable no_new_sample None (example_state\<lparr>touchState := touch\<rparr>))
        = Some touch
   \<and> map_option fst
        (TouchPanelReadable no_new_sample (Some \<lparr>p_x = 7, p_y = 9\<rparr>) (example_state\<lparr>touchState := touch\<rparr>))
        = Some no_cal
   \<and> map_option (fst \<circ> snd)
        (TouchPanelReadable no_new_sample (Some \<lparr>p_x = 7, p_y = 9\<rparr>) (example_state\<lparr>touchState := touch\<rparr>))
        = Some (Some \<lparr>p_x = 0, p_y = 0\<rparr>)"
proof -
  have f: "\<not> touch_flag no_new_sample"
    by (simp add: touch_flag_def no_new_sample_def RA8875_INT_TP_def)
  show ?thesis
    by (simp add: TouchPanelReadable_def Readable_resistive_def A2DFiltered_no_flag [OF f]
        set_touchInfo0_def example_state_def Let_def)
qed

text \<open>C4, amended: with \<open>Divider = 0\<close> and a resistive poll that reports a touch code other
  than \<open>no_touch\<close>, a call with a point pointer returns \<open>no_cal\<close>, records \<open>no_cal\<close> for
  channel 0, computes no coordinates (those stored for channel 0 are unchanged) and
  leaves the matrix alone; a call with a null pointer returns \<open>touch\<close>.\<close>

theorem Readable_uncalibrated:
  assumes "Divider (tpMatrix s) = 0" and "new_event r s"
  shows "(\<exists>out s'. TouchPanelReadable r (Some p) s = Some (no_cal, out, s')
            \<and> touchCode (touchInfo s' 0) = no_cal
            \<and> coordinates (touchInfo s' 0) = coordinates (touchInfo s 0)
            \<and> tpMatrix s' = tpMatrix s)
       \<and> (\<exists>s'. TouchPanelReadable r None s = Some (touch, None, s'))"
proof -
  let ?s0 = "set_touchInfo0 (touchID_update (\<lambda>_. 0)) s"
  from assms(2) obtain ts xy' s1 where res: "useTouchPanel s = TP_RES"
    and f: "TouchPanelA2DFiltered r (0, 0) ?s0 = Some (ts, xy', s1)" and ts: "ts \<noteq> no_touch"
    by (auto simp: new_event_def split: option.splits)
  from Readable_resistive_Some [OF f] assms(1) ts obtain s3 where
    rr: "Readable_resistive r s = Some (no_cal, s3)"
    and s3: "panelTouched s3" "touchCode (touchInfo s3 0) = no_cal"
      "coordinates (touchInfo s3 0) = coordinates (touchInfo s 0)" "tpMatrix s3 = tpMatrix s"
    by auto
  show ?thesis
    using res s3 by (simp add: TouchPanelReadable_def rr Let_def)
qed

theorem Readable_uncalibrated_witness:
  "Divider (tpMatrix (example_state\<lparr>touchState := touch\<rparr>)) = 0
   \<and> new_event no_new_sample (example_state\<lparr>touchState := touch\<rparr>)
   \<and> map_option fst
        (TouchPanelReadable no_new_sample (Some \<lparr>p_x = 7, p_y = 9\<rparr>) (example_state\<lparr>touchState := touch\<rparr>))
        = Some no_cal
   \<and> map_option fst (TouchPanelReadable no_new_sample None (example_state\<lparr>touchState := touch\<rparr>))
        = Some touch"
proof -
  have f: "\<not> touch_flag no_new_sample"
    by (simp add: touch_flag_def no_new_sample_def RA8875_INT_TP_def)
  have d: "Divider (tpMatrix (example_state\<lparr>touchState := touch\<rparr>)) = 0"
    by (simp add: example_state_def)
  have e: "new_event no_new_sample (example_state\<lparr>touchState := touch\<rparr>)"
    by (simp add: new_event_def A2DFiltered_no_flag [OF f] set_touchInfo0_def example_state_def)
  from Readable_uncalibrated [OF d e, of "\<lparr>p_x = 7, p_y = 9\<rparr>"]
  show ?thesis using d e by auto
qed

subsection \<open>The calibration session\<close>

lemma wait_us_timeout: "timeout (wait_us n w) = timeout w + int n"
  by (induction n) (simp_all add: tick_us_def)














lemma idle_call_Some:
  "idle_call (Some f) reason w =
     (f (length (calls w)) reason = external_abort,
      w\<lparr>calls := (reason, f (length (calls w)) reason) # calls w\<rparr>)"
  by (simp add: idle_call_def)















lemma wait_us_calls [simp]: "calls (wait_us n w) = calls w"
  by (induction n) (simp_all add: tick_us_def)

lemma wait_us_polls [simp]: "polls (wait_us n w) = polls w"
  by (induction n) (simp_all add: tick_us_def)





















lemma ok_outcome_Continue: "ok_outcome cb w (Continue a w') \<Longrightarrow> keeps cb w w'"
  by (simp add: ok_outcome_def)











text \<open>An abort asked for inside a drawing call: the busy-wait ends after its first round of
  \<open>POLLWAITuSec\<close> microseconds, the invocation is recorded, and the drawing call hands the
  session back to the routine, which goes on.\<close>

lemma busy_loop_abort:
  assumes "f (length (calls v)) reason = external_abort"
  shows "busy_loop (Suc m) reason (Some f) v
           = (wait_us POLLWAITuSec v)\<lparr>calls := (reason, external_abort) # calls v\<rparr>"
  using assms by (simp add: idle_call_Some)

lemma drawing_abort_dropped:
  "calls (cls chip_slow (Some abort_while_drawing) w) = (command_wait, external_abort) # calls w"
  "calls (line chip_slow (Some abort_while_drawing) w) = (command_wait, external_abort) # calls w"
  "calls (WaitWhileBusy chip_slow (Some abort_while_drawing) w)
     = (status_wait, external_abort) # calls w"
  "timeout (cls chip_slow (Some abort_while_drawing) w) = timeout w + int POLLWAITuSec"
  "timeout (line chip_slow (Some abort_while_drawing) w) = timeout w + int POLLWAITuSec"
  "timeout (WaitWhileBusy chip_slow (Some abort_while_drawing) w) = timeout w + int POLLWAITuSec"
proof -
  have n: "min (chip_slow k) (20000 div POLLWAITuSec) = Suc 2" for k
    by (simp add: chip_slow_def POLLWAITuSec_def)
  have a: "abort_while_drawing k command_wait = external_abort"
    "abort_while_drawing k status_wait = external_abort" for k
    by (simp_all add: abort_while_drawing_def)
  have r: "WaitWhileReg chip_slow (Some abort_while_drawing) w
      = (wait_us POLLWAITuSec (w\<lparr>waits := waits w + 1\<rparr>))\<lparr>calls := (command_wait, external_abort) # calls w\<rparr>"
    unfolding WaitWhileReg_def n by (subst busy_loop_abort) (simp_all add: a)
  have b: "WaitWhileBusy chip_slow (Some abort_while_drawing) w
      = (wait_us POLLWAITuSec (w\<lparr>waits := waits w + 1\<rparr>))\<lparr>calls := (status_wait, external_abort) # calls w\<rparr>"
    unfolding WaitWhileBusy_def n by (subst busy_loop_abort) (simp_all add: a)
  show "calls (cls chip_slow (Some abort_while_drawing) w) = (command_wait, external_abort) # calls w"
    "calls (line chip_slow (Some abort_while_drawing) w) = (command_wait, external_abort) # calls w"
    "calls (WaitWhileBusy chip_slow (Some abort_while_drawing) w)
       = (status_wait, external_abort) # calls w"
    by (simp_all add: cls_def line_def r b)
  show "timeout (cls chip_slow (Some abort_while_drawing) w) = timeout w + int POLLWAITuSec"
    "timeout (line chip_slow (Some abort_while_drawing) w) = timeout w + int POLLWAITuSec"
    "timeout (WaitWhileBusy chip_slow (Some abort_while_drawing) w) = timeout w + int POLLWAITuSec"
    by (simp_all add: cls_def line_def r b wait_us_timeout)
qed














end
